theory Spec2Isabelle
  imports Complex_Main "HOL-Library.Sublist"
begin

section \<open>JavaScript strings\<close>

text \<open>
  A JavaScript string is modelled as a \<^typ>\<open>string\<close>: one \<^typ>\<open>char\<close> per code unit,
  for the code units below 256 (ASCII and Latin-1). The string methods the sources call
  are given below with the names they have in JavaScript.
\<close>

definition toLowerChar :: "char \<Rightarrow> char" where
  "toLowerChar c =
     (let n = (of_char c :: nat)
      in if (65 \<le> n \<and> n \<le> 90) \<or> (192 \<le> n \<and> n \<le> 222 \<and> n \<noteq> 215)
         then char_of (n + 32) else c)"

definition toLowerCase :: "string \<Rightarrow> string" where
  "toLowerCase s = map toLowerChar s"

text \<open>White space of \<open>String.prototype.trim\<close> and of the regular expression class
  \<open>\s\<close>, among the code units below 256: tab, line feed, vertical tab, form feed,
  carriage return, space and no-break space.\<close>

definition isWhiteSpace :: "char \<Rightarrow> bool" where
  "isWhiteSpace c = ((of_char c :: nat) \<in> {9, 10, 11, 12, 13, 32, 160})"

definition trim :: "string \<Rightarrow> string" where
  "trim s = rev (dropWhile isWhiteSpace (rev (dropWhile isWhiteSpace s)))"

definition includesStr :: "string \<Rightarrow> string \<Rightarrow> bool" where
  "includesStr s q = sublist q s"

definition startsWith :: "string \<Rightarrow> string \<Rightarrow> bool" where
  "startsWith s q = prefix q s"

section \<open>The popup's search (popup.js, initializeSearch)\<close>

record translation =
  key :: string
  val :: string

record scored =
  item :: translation
  score :: real

text \<open>The body of the \<open>map\<close> callback: \<open>None\<close> is the \<open>null\<close> it returns for a
  candidate that contains the query in neither field.\<close>

definition scoreItem :: "string \<Rightarrow> translation \<Rightarrow> scored option" where
  "scoreItem normalizedQuery it =
     (let keyMatch = includesStr (toLowerCase (key it)) normalizedQuery;
          valMatch = includesStr (toLowerCase (val it)) normalizedQuery
      in if \<not> keyMatch \<and> \<not> valMatch then None
         else Some \<lparr> item = it,
                     score =
                       (if toLowerCase (key it) = normalizedQuery \<or> toLowerCase (val it) = normalizedQuery
                        then 1.0
                        else if startsWith (toLowerCase (key it)) normalizedQuery
                                \<or> startsWith (toLowerCase (val it)) normalizedQuery
                        then 0.8
                        else if keyMatch \<and> valMatch then 0.6
                        else if keyMatch \<or> valMatch then 0.4
                        else 0) \<rparr>)"

text \<open>\<open>Array.prototype.sort\<close> with a comparator is a stable sort: an element goes
  before the first element of the sorted rest that the comparator does not put before
  it.\<close>

fun insertBy :: "('a \<Rightarrow> 'a \<Rightarrow> real) \<Rightarrow> 'a \<Rightarrow> 'a list \<Rightarrow> 'a list" where
  "insertBy cmp x [] = [x]"
| "insertBy cmp x (y # ys) = (if cmp x y \<le> 0 then x # y # ys else y # insertBy cmp x ys)"

fun sortBy :: "('a \<Rightarrow> 'a \<Rightarrow> real) \<Rightarrow> 'a list \<Rightarrow> 'a list" where
  "sortBy cmp [] = []"
| "sortBy cmp (x # xs) = insertBy cmp x (sortBy cmp xs)"

text \<open>\<open>xs.slice(0, n)\<close> for an integer \<open>n\<close>: a negative end counts from the end of
  the array.\<close>

definition slice0 :: "int \<Rightarrow> 'a list \<Rightarrow> 'a list" where
  "slice0 n xs = (if n < 0 then take (nat (int (length xs) + n)) xs else take (nat n) xs)"

text \<open>\<open>searchService.search(query, options)\<close> of the popup: \<open>translations\<close> is \<open>this.translations\<close> (\<open>None\<close> when
  it is \<open>null\<close>), \<open>limit\<close> is \<open>options.limit\<close> (\<open>None\<close> when absent), so that
  \<open>options.limit || 20\<close> is 20 for an absent or zero limit.\<close>

definition popup_search :: "translation list option \<Rightarrow> string \<Rightarrow> int option \<Rightarrow> scored list" where
  "popup_search translations query limit =
     (case translations of
        None \<Rightarrow> []
      | Some ts \<Rightarrow>
          if query = [] then []
          else
            let normalizedQuery = trim (toLowerCase query);
                lim = (case limit of None \<Rightarrow> 20 | Some n \<Rightarrow> if n = 0 then 20 else n)
            in slice0 lim
                 (sortBy (\<lambda>a b. score b - score a)
                    (map the (filter (\<lambda>r. r \<noteq> None) (map (scoreItem normalizedQuery) ts)))))"

section \<open>JavaScript values\<close>

text \<open>
  The values the extraction code walks: the JSON values, \<open>undefined\<close> and functions.
  An object is the list of its own enumerable properties in enumeration order (each name
  once); a number is a real (the finite doubles; \<open>NaN\<close> and the infinities are not
  values of the model). DOM nodes and windows are not values of the model either.
\<close>

datatype jsval =
    JUndefined
  | JNull
  | JBool bool
  | JNum real
  | JStr string
  | JFun
  | JArr "jsval list"
  | JObj "(string \<times> jsval) list"

text \<open>Decimal numeral of an array index, as \<open>for ... in\<close> and \<open>Object.entries\<close>
  name the elements of an array.\<close>

fun showNat :: "nat \<Rightarrow> string" where
  "showNat n = (if n < 10 then [char_of (48 + n)] else showNat (n div 10) @ [char_of (48 + n mod 10)])"

declare showNat.simps [simp del]

definition arrayEntries :: "jsval list \<Rightarrow> (string \<times> jsval) list" where
  "arrayEntries xs = zip (map showNat [0 ..< length xs]) xs"

section \<open>The content script's flattener (flattenTranslationData)\<close>

text \<open>The inner \<open>flatten(obj, currentPrefix)\<close>, as a walk over the properties of
  \<open>obj\<close>; the records pushed onto \<open>result\<close> are returned in the order of the pushes.
  \<open>currentPrefix ? ... : key\<close> tests the prefix for being non-empty.\<close>

fun flatten :: "(string \<times> jsval) list \<Rightarrow> string \<Rightarrow> translation list" where
  "flatten [] currentPrefix = []"
| "flatten ((k, v) # rest) currentPrefix =
     (let fullKey = (if currentPrefix \<noteq> [] then currentPrefix @ ''.'' @ k else k)
      in (case v of
            JStr s \<Rightarrow> [\<lparr> key = fullKey, val = s \<rparr>]
          | JObj kvs \<Rightarrow> flatten kvs fullKey
          | _ \<Rightarrow> [])
         @ flatten rest currentPrefix)"

definition flattenTranslationData :: "jsval \<Rightarrow> string \<Rightarrow> translation list" where
  "flattenTranslationData data pre =
     (case data of
        JObj kvs \<Rightarrow> flatten kvs pre
      | JArr xs \<Rightarrow> flatten (arrayEntries xs) pre
      | _ \<Rightarrow> [])"

section \<open>The page script's sanitizer (sanitizeData)\<close>




section \<open>Errors, truthiness and property reads\<close>

datatype exn = Error string | TypeError string

fun message :: "exn \<Rightarrow> string" where
  "message (Error m) = m"
| "message (TypeError m) = m"

fun truthy :: "jsval \<Rightarrow> bool" where
  "truthy JUndefined = False"
| "truthy JNull = False"
| "truthy (JBool b) = b"
| "truthy (JNum n) = (n \<noteq> 0)"
| "truthy (JStr s) = (s \<noteq> [])"
| "truthy JFun = True"
| "truthy (JArr xs) = True"
| "truthy (JObj kvs) = True"

fun typeof :: "jsval \<Rightarrow> string" where
  "typeof JUndefined = ''undefined''"
| "typeof JNull = ''object''"
| "typeof (JBool b) = ''boolean''"
| "typeof (JNum n) = ''number''"
| "typeof (JStr s) = ''string''"
| "typeof JFun = ''function''"
| "typeof (JArr xs) = ''object''"
| "typeof (JObj kvs) = ''object''"

text \<open>
  \<open>getProp v name\<close> is the read \<open>v.name\<close> or \<open>v[name]\<close>, for the names the sources read
  (\<open>__NUXT__\<close>, \<open>state\<close>, \<open>$si18n_...\<close>, \<open>__INIT_STATE__\<close>, \<open>lang\<close>, \<open>item\<close>, \<open>score\<close>,
  \<open>refIndex\<close>, \<open>key\<close>, \<open>val\<close>): none of them is an array index or a built-in property, so
  the read gives \<open>undefined\<close> on every primitive, function and array, and throws a
  TypeError on \<open>undefined\<close> and \<open>null\<close>.
\<close>

fun getProp :: "jsval \<Rightarrow> string \<Rightarrow> exn + jsval" where
  "getProp JUndefined name =
     Inl (TypeError (''Cannot read properties of undefined (reading '' @ [CHR 0x27] @ name @ [CHR 0x27] @ '')''))"
| "getProp JNull name =
     Inl (TypeError (''Cannot read properties of null (reading '' @ [CHR 0x27] @ name @ [CHR 0x27] @ '')''))"
| "getProp (JObj kvs) name = (case map_of kvs name of Some v \<Rightarrow> Inr v | None \<Rightarrow> Inr JUndefined)"
| "getProp v name = Inr JUndefined"

section \<open>TranslationEntry (models/TranslationEntry.js)\<close>

text \<open>\<open>new TranslationEntry(key, val)\<close>: the constructor stores the two arguments and
  runs \<open>validate\<close>, which throws unless the key is a non-empty string and the value a
  string.\<close>

definition newTranslationEntry :: "jsval \<Rightarrow> jsval \<Rightarrow> exn + translation" where
  "newTranslationEntry k v =
     (if \<not> truthy k \<or> typeof k \<noteq> ''string''
      then Inl (Error ''TranslationEntry key must be a non-empty string'')
      else if v = JNull \<or> v = JUndefined
      then Inl (Error ''TranslationEntry value must be a string'')
      else if typeof v \<noteq> ''string''
      then Inl (Error ''TranslationEntry value must be a string'')
      else case (k, v) of
             (JStr ks, JStr vs) \<Rightarrow> Inr \<lparr> key = ks, val = vs \<rparr>
           | _ \<Rightarrow> Inl (Error ''TranslationEntry value must be a string''))"

definition fromObject :: "jsval \<Rightarrow> exn + translation" where
  "fromObject obj =
     (if \<not> truthy obj \<or> typeof obj \<noteq> ''object'' then Inl (Error ''Invalid object provided'')
      else case getProp obj ''key'' of
             Inl e \<Rightarrow> Inl e
           | Inr k \<Rightarrow> (case getProp obj ''val'' of
                        Inl e \<Rightarrow> Inl e
                      | Inr v \<Rightarrow> newTranslationEntry k v))"

section \<open>PageContext (models/PageContext.js)\<close>

record page_context =
  domain :: string
  pathname :: string
  isKKdayDomain_flag :: bool
  isProductPage_flag :: bool
  language :: string

definition isAsciiLetter :: "char \<Rightarrow> bool" where
  "isAsciiLetter c = (let n = (of_char c :: nat) in (65 \<le> n \<and> n \<le> 90) \<or> (97 \<le> n \<and> n \<le> 122))"

definition isDigit :: "char \<Rightarrow> bool" where
  "isDigit c = (let n = (of_char c :: nat) in 48 \<le> n \<and> n \<le> 57)"

text \<open>Canonicalisation of a character under the \<open>i\<close> flag (without the \<open>u\<close> flag):
  upper case. Only its equality with the canonical form of an ASCII pattern character
  is used, which no character outside ASCII has.\<close>

definition canonicalize :: "char \<Rightarrow> char" where
  "canonicalize c = (let n = (of_char c :: nat) in if 97 \<le> n \<and> n \<le> 122 then char_of (n - 32) else c)"

text \<open>A literal of the pattern matched at the start of \<open>s\<close> under the \<open>i\<close> flag; the
  result is the rest of \<open>s\<close>.\<close>

fun matchLiteral :: "string \<Rightarrow> string \<Rightarrow> string option" where
  "matchLiteral [] s = Some s"
| "matchLiteral (p # ps) [] = None"
| "matchLiteral (p # ps) (c # cs) =
     (if canonicalize c = canonicalize p then matchLiteral ps cs else None)"

text \<open>\<open>[a-z]{2}\<close> under the \<open>i\<close> flag, at the start of \<open>s\<close>.\<close>

fun matchTwoLetters :: "string \<Rightarrow> string option" where
  "matchTwoLetters (a # b # rest) = (if isAsciiLetter a \<and> isAsciiLetter b then Some rest else None)"
| "matchTwoLetters s = None"

text \<open>The rest of the pattern after the optional group: \<open>\/product\/\d+\<close>. The
  pattern is not anchored at the end, so one digit is enough.\<close>

definition matchProductId :: "string \<Rightarrow> bool" where
  "matchProductId s =
     (case matchLiteral ''/product/'' s of
        None \<Rightarrow> False
      | Some rest \<Rightarrow> (case rest of [] \<Rightarrow> False | d # _ \<Rightarrow> isDigit d))"

text \<open>\<open>/^\/[a-z]{2}(-[a-z]{2})?\/product\/\d+/i.test(pathname)\<close>: the optional group
  is tried first, and without it when the rest does not match after it.\<close>

definition productPageRegex_test :: "string \<Rightarrow> bool" where
  "productPageRegex_test s =
     (case matchLiteral ''/'' s of
        None \<Rightarrow> False
      | Some s1 \<Rightarrow>
          (case matchTwoLetters s1 of
             None \<Rightarrow> False
           | Some s2 \<Rightarrow>
               (case matchLiteral ''-'' s2 of
                  None \<Rightarrow> False
                | Some s3 \<Rightarrow> (case matchTwoLetters s3 of None \<Rightarrow> False | Some s4 \<Rightarrow> matchProductId s4))
               \<or> matchProductId s2))"

text \<open>\<open>PageContext.isProductPage(pathname)\<close> for a string argument: the empty string
  is falsy and gives false before the pattern is tried.\<close>

definition isProductPage :: "string \<Rightarrow> bool" where
  "isProductPage p = (if p = [] then False else productPageRegex_test p)"

definition getDataSourceStrategy :: "page_context \<Rightarrow> exn + string" where
  "getDataSourceStrategy pc =
     (if \<not> isKKdayDomain_flag pc then Inl (Error ''Cannot determine data source for non-KKday domain'')
      else Inr (if isProductPage_flag pc then ''nuxt'' else ''init_state''))"

section \<open>DataExtractionService (services/DataExtractionService.js)\<close>

text \<open>\<open>Object.entries\<close> of a truthy value of type \<open>object\<close>.\<close>

fun objectEntries :: "jsval \<Rightarrow> (string \<times> jsval) list" where
  "objectEntries (JObj kvs) = kvs"
| "objectEntries (JArr xs) = arrayEntries xs"
| "objectEntries v = []"

text \<open>The body of the loop of \<open>convertToTranslationEntries\<close>: an entry is pushed for
  a string that is not blank; an entry whose constructor throws is skipped by the
  \<open>catch\<close>.\<close>

fun convertEntries :: "(string \<times> jsval) list \<Rightarrow> translation list" where
  "convertEntries [] = []"
| "convertEntries ((k, v) # rest) =
     (case v of
        JStr s \<Rightarrow>
          (if trim s \<noteq> []
           then (case newTranslationEntry (JStr k) v of
                   Inr e \<Rightarrow> e # convertEntries rest
                 | Inl err \<Rightarrow> convertEntries rest)
           else convertEntries rest)
      | _ \<Rightarrow> convertEntries rest)"

definition convertToTranslationEntries :: "jsval \<Rightarrow> translation list" where
  "convertToTranslationEntries rawData =
     (if \<not> truthy rawData \<or> typeof rawData \<noteq> ''object'' then []
      else convertEntries (objectEntries rawData))"

definition extractFromNuxt :: "page_context \<Rightarrow> jsval \<Rightarrow> exn + (jsval \<times> string)" where
  "extractFromNuxt pc globalScope =
     (let lang = (if language pc \<noteq> [] then language pc else ''zh-tw'');
          i18nKey = ''$si18n_'' @ lang;
          path = ''__NUXT__.state['' @ [CHR 0x27] @ i18nKey @ [CHR 0x27] @ '']''
      in case getProp globalScope ''__NUXT__'' of
           Inl e \<Rightarrow> Inl e
         | Inr nuxt \<Rightarrow>
             (if \<not> truthy nuxt then Inl (Error ''__NUXT__ global variable not found'')
              else (case getProp nuxt ''state'' of
                      Inl e \<Rightarrow> Inl e
                    | Inr st \<Rightarrow>
                        (if \<not> truthy st then Inl (Error ''__NUXT__.state not found'')
                         else (case getProp st i18nKey of
                                 Inl e \<Rightarrow> Inl e
                               | Inr i18nData \<Rightarrow>
                                   (if \<not> truthy i18nData
                                    then Inl (Error (''Translation data not found at '' @ path))
                                    else Inr (i18nData, path)))))))"

definition extractFromInitState :: "jsval \<Rightarrow> exn + (jsval \<times> string)" where
  "extractFromInitState globalScope =
     (let path = ''__INIT_STATE__.lang''
      in case getProp globalScope ''__INIT_STATE__'' of
           Inl e \<Rightarrow> Inl e
         | Inr initState \<Rightarrow>
             (if \<not> truthy initState then Inl (Error ''__INIT_STATE__ global variable not found'')
              else (case getProp initState ''lang'' of
                      Inl e \<Rightarrow> Inl e
                    | Inr langData \<Rightarrow>
                        (if \<not> truthy langData
                         then Inl (Error (''Translation data not found at '' @ path))
                         else Inr (langData, path)))))"

text \<open>The result object: \<open>{success: true, data, dataSource, strategy, count}\<close> or
  \<open>{success: false, error}\<close>.\<close>

datatype extraction =
    Success "translation list" string string nat
  | Failure string

text \<open>The \<open>try\<close> block of \<open>extractTranslationData\<close>: \<open>Inl\<close> is an exception that
  leaves the block.\<close>

definition extractBody :: "page_context \<Rightarrow> jsval \<Rightarrow> exn + extraction" where
  "extractBody pc globalScope =
     (case getDataSourceStrategy pc of
        Inl e \<Rightarrow> Inl e
      | Inr strategy \<Rightarrow>
          (case (if strategy = ''nuxt'' then map_sum id Some (extractFromNuxt pc globalScope)
                 else if strategy = ''init_state'' then map_sum id Some (extractFromInitState globalScope)
                 else Inr None) of
             Inl e \<Rightarrow> Inl e
           | Inr None \<Rightarrow> Inr (Failure (''Unknown extraction strategy: '' @ strategy))
           | Inr (Some (rawData, dataSourcePath)) \<Rightarrow>
               if \<not> truthy rawData then Inr (Failure ''No translation data found in global variables'')
               else let translationEntries = convertToTranslationEntries rawData
                    in if length translationEntries = 0
                       then Inr (Failure ''No valid translation entries found'')
                       else Inr (Success translationEntries dataSourcePath strategy
                                   (length translationEntries))))"

text \<open>
  \<open>extractTranslationData(pageContext, globalScope = window)\<close>. \<open>pageContext\<close> is
  \<open>None\<close> for an argument that is not a PageContext instance; an \<open>undefined\<close>
  \<open>globalScope\<close> takes the default, the \<open>window\<close> of the caller. \<open>Inl\<close> would be an
  exception that leaves the function (a rejected promise).
\<close>

definition DataExtractionService_extractTranslationData ::
  "jsval \<Rightarrow> page_context option \<Rightarrow> jsval \<Rightarrow> exn + extraction" where
  "DataExtractionService_extractTranslationData window pageContext globalScope0 =
     (let globalScope = (if globalScope0 = JUndefined then window else globalScope0)
      in case pageContext of
           None \<Rightarrow> Inr (Failure ''Invalid page context provided'')
         | Some pc \<Rightarrow>
             if \<not> isKKdayDomain_flag pc then Inr (Failure ''Cannot extract data from non-KKday domain'')
             else (case extractBody pc globalScope of
                     Inr r \<Rightarrow> Inr r
                   | Inl error \<Rightarrow> Inr (Failure (''Data extraction failed: '' @ message error))))"

section \<open>The content script's cache of translation data\<close>

text \<open>\<open>this.translationData\<close>: \<open>None\<close> is the initial \<open>null\<close>.\<close>

type_synonym cache = "translation list option"

definition cacheEmpty :: "cache \<Rightarrow> bool" where
  "cacheEmpty c = (case c of None \<Rightarrow> True | Some ts \<Rightarrow> length ts = 0)"

text \<open>The \<open>message\<close> listener of \<open>listenForPageData\<close>. \<open>fromWindow\<close> is
  \<open>event.source === window\<close>, \<open>msgType\<close> and \<open>msgData\<close> are \<open>event.data.type\<close> and
  \<open>event.data.data\<close>.\<close>

record page_message =
  fromWindow :: bool
  msgType :: string
  msgData :: jsval

definition onPageMessage :: "page_message \<Rightarrow> cache \<Rightarrow> cache" where
  "onPageMessage event translationData =
     (if \<not> fromWindow event then translationData
      else if msgType event = ''I18N_KEY_FINDER_DATA''
      then (if truthy (msgData event) then Some (flattenTranslationData (msgData event) [])
            else translationData)
      else translationData)"

text \<open>
  The end of the content script's own \<open>extractTranslationData\<close>. Its six lookups in
  the page are not modelled: \<open>found\<close> is their outcome, \<open>Inr data\<close> with the value of
  \<open>data\<close> after them (\<open>null\<close> when nothing was found), or \<open>Inl\<close> when one of them threw
  and the \<open>catch\<close> block ran.
\<close>

definition ContentScript_extractTranslationData :: "exn + jsval \<Rightarrow> cache \<Rightarrow> cache" where
  "ContentScript_extractTranslationData found translationData =
     (case found of
        Inr data \<Rightarrow>
          if truthy data
          then (if cacheEmpty translationData then Some (flattenTranslationData data [])
                else translationData)
          else (if cacheEmpty translationData then Some [] else translationData)
      | Inl error \<Rightarrow> (if cacheEmpty translationData then Some [] else translationData))"

section \<open>SearchResult (models/SearchResult.js)\<close>

record SearchResult = scored +
  refIndex :: real

text \<open>\<open>new SearchResult(item, score, refIndex)\<close> for an item that is a TranslationEntry
  and numbers \<open>score\<close> and \<open>refIndex\<close>, the arguments \<open>fromFuseResult\<close> passes.\<close>

definition newSearchResult :: "translation \<Rightarrow> real \<Rightarrow> real \<Rightarrow> exn + SearchResult" where
  "newSearchResult it sc ri =
     (if sc < 0 \<or> sc > 1 then Inl (Error ''SearchResult score must be between 0 and 1'')
      else if ri < 0 \<or> of_int \<lfloor>ri\<rfloor> \<noteq> ri then Inl (Error ''SearchResult refIndex must be a non-negative integer'')
      else Inr \<lparr> item = it, score = sc, refIndex = ri \<rparr>)"

definition fromFuseResult :: "jsval \<Rightarrow> exn + SearchResult" where
  "fromFuseResult fuseResult =
     (if \<not> truthy fuseResult \<or> typeof fuseResult \<noteq> ''object''
      then Inl (Error ''Invalid Fuse result provided to SearchResult.fromFuseResult'')
      else (case getProp fuseResult ''item'' of
              Inl e \<Rightarrow> Inl e
            | Inr it \<Rightarrow>
                (if \<not> truthy it then Inl (Error ''Fuse result must contain an item property'')
                 else (case fromObject it of
                         Inl e \<Rightarrow> Inl e
                       | Inr translationEntry \<Rightarrow>
                           (case getProp fuseResult ''score'' of
                              Inl e \<Rightarrow> Inl e
                            | Inr s \<Rightarrow>
                                (case getProp fuseResult ''refIndex'' of
                                   Inl e \<Rightarrow> Inl e
                                 | Inr r \<Rightarrow>
                                     newSearchResult translationEntry
                                       (case s of JNum x \<Rightarrow> x | _ \<Rightarrow> 0)
                                       (case r of JNum x \<Rightarrow> x | _ \<Rightarrow> 0)))))))"

definition getConfidenceLevel :: "'a scored_scheme \<Rightarrow> string" where
  "getConfidenceLevel r =
     (if score r = 0 then ''perfect''
      else if score r < 0.2 then ''high''
      else if score r < 0.4 then ''medium''
      else if score r < 0.6 then ''low''
      else ''very_low'')"

definition sortByScore :: "SearchResult list \<Rightarrow> SearchResult list" where
  "sortByScore results = sortBy (\<lambda>a b. score a - score b) results"

section \<open>SearchService (services/SearchService.js)\<close>





text \<open>
  The \<open>options\<close> argument; \<open>None\<close> is an absent property. \<open>minRelevance\<close> is \<open>None\<close> also
  when \<open>options.minRelevance\<close> is falsy; otherwise it is the test that the option puts on
  the score of a result, \<open>result.getRelevancePercentage() >= options.minRelevance\<close>. The
  percentage is \<open>Math.round((1 - score) * 100)\<close> in double arithmetic, whose rounding is not
  modelled: the test on the score is taken as it is.
\<close>

record search_options =
  limit :: "nat option"
  threshold :: "real option"
  minRelevance :: "(real \<Rightarrow> bool) option"






section \<open>The flattener as the specification words it\<close>

text \<open>
  The dotted path of a leaf: the property names on the way to it, joined by a dot.
  \<open>specFlatten path props\<close> walks the properties \<open>props\<close> of the object reached by
  \<open>path\<close> in their enumeration order: a string gives one record whose key is the dotted
  path and whose value is the string, a plain object is walked with the path extended by
  its name, and every other value (array, function, \<open>null\<close>, \<open>undefined\<close>, number,
  boolean) is skipped.
\<close>

fun joinDots :: "string list \<Rightarrow> string" where
  "joinDots [] = []"
| "joinDots [k] = k"
| "joinDots (k # ks) = k @ ''.'' @ joinDots ks"

fun specFlatten :: "string list \<Rightarrow> (string \<times> jsval) list \<Rightarrow> translation list" where
  "specFlatten path [] = []"
| "specFlatten path ((k, v) # rest) =
     (case v of
        JStr s \<Rightarrow> [\<lparr> key = joinDots (path @ [k]), val = s \<rparr>]
      | JObj kvs \<Rightarrow> specFlatten (path @ [k]) kvs
      | _ \<Rightarrow> [])
     @ specFlatten path rest"

section \<open>The product page pattern as the specification words it\<close>

text \<open>
  A path is a product path when it is a slash, two letters, optionally a hyphen and two
  more letters, then the literal \<open>/product/\<close> in any letter case, then one or more
  decimal digits, then anything.
\<close>

definition productPathSpec :: "string \<Rightarrow> bool" where
  "productPathSpec p =
     (\<exists>a b region lit ds rest.
        p = ''/'' @ [a, b] @ region @ lit @ ds @ rest
        \<and> isAsciiLetter a \<and> isAsciiLetter b
        \<and> (region = [] \<or> (\<exists>c d. region = [CHR ''-'', c, d] \<and> isAsciiLetter c \<and> isAsciiLetter d))
        \<and> toLowerCase lit = ''/product/''
        \<and> ds \<noteq> [] \<and> list_all isDigit ds)"

section \<open>The Fuse mock of the SearchService unit test\<close>


section \<open>Properties of the popup's search\<close>

lemma set_insertBy: "set (insertBy cmp x xs) = insert x (set xs)"
  by (induction xs) auto

lemma set_sortBy: "set (sortBy cmp xs) = set xs"
  by (induction xs) (auto simp: set_insertBy)

lemma length_insertBy: "length (insertBy cmp x xs) = Suc (length xs)"
  by (induction xs) auto

lemma length_sortBy: "length (sortBy cmp xs) = length xs"
  by (induction xs) (auto simp: length_insertBy)

lemma set_slice0_subset: "set (slice0 n xs) \<subseteq> set xs"
  by (auto simp: slice0_def dest: in_set_takeD)

lemma slice0_all: "int (length xs) \<le> n \<Longrightarrow> slice0 n xs = xs"
  by (auto simp: slice0_def)

lemma sorted_insertBy_key:
  "sorted_wrt (\<lambda>a b. f a \<le> f b) xs \<Longrightarrow>
   sorted_wrt (\<lambda>a b. f a \<le> f b) (insertBy (\<lambda>a b. f a - f b) x xs)"
  by (induction xs) (auto simp: set_insertBy)

lemma sorted_sortBy_key: "sorted_wrt (\<lambda>a b. f a \<le> f b) (sortBy (\<lambda>a b. f a - f b) xs)"
  by (induction xs) (auto simp: sorted_insertBy_key)

lemma sorted_sortBy_desc:
  "sorted_wrt (\<lambda>a b. score b \<le> score a) (sortBy (\<lambda>a b. score b - score a) xs)"
  using sorted_sortBy_key [of "\<lambda>r. - score r" xs] by simp

lemma sorted_wrt_slice0: "sorted_wrt P xs \<Longrightarrow> sorted_wrt P (slice0 n xs)"
  by (simp add: slice0_def)

lemma scored_candidates:
  "x \<in> set (map the (filter (\<lambda>r. r \<noteq> None) (map f ts))) \<Longrightarrow> \<exists>it \<in> set ts. f it = Some x"
  by auto

lemma popup_search_subset:
  assumes "query \<noteq> []"
  shows "set (popup_search (Some ts) query lim_opt)
           \<subseteq> set (map the (filter (\<lambda>r. r \<noteq> None) (map (scoreItem (trim (toLowerCase query))) ts)))"
proof -
  define xs where "xs = map the (filter (\<lambda>r. r \<noteq> None) (map (scoreItem (trim (toLowerCase query))) ts))"
  define n where "n = (case lim_opt of None \<Rightarrow> 20 | Some n \<Rightarrow> if n = 0 then 20 else n)"
  have "popup_search (Some ts) query lim_opt = slice0 n (sortBy (\<lambda>a b. score b - score a) xs)"
    using assms by (simp add: popup_search_def Let_def xs_def n_def)
  moreover have "set (slice0 n (sortBy (\<lambda>a b. score b - score a) xs)) \<subseteq> set xs"
    using set_slice0_subset [of n "sortBy (\<lambda>a b. score b - score a) xs"] by (simp only: set_sortBy)
  ultimately show ?thesis
    by (simp only: xs_def)
qed

lemma scoreItem_Some:
  "scoreItem q it = Some r \<longleftrightarrow>
     (includesStr (toLowerCase (key it)) q \<or> includesStr (toLowerCase (val it)) q)
     \<and> r = \<lparr> item = it, score = (if toLowerCase (key it) = q \<or> toLowerCase (val it) = q then 1
      else if startsWith (toLowerCase (key it)) q \<or> startsWith (toLowerCase (val it)) q then 0.8
      else if includesStr (toLowerCase (key it)) q \<and> includesStr (toLowerCase (val it)) q then 0.6
      else 0.4) \<rparr>"
  by (auto simp: scoreItem_def Let_def)

lemma popup_search_sound:
  assumes "trim (toLowerCase query) = q" and "q \<noteq> []"
  shows "(\<forall>r \<in> set (popup_search (Some ts) query lim_opt).
            item r \<in> set ts
            \<and> (includesStr (toLowerCase (key (item r))) q \<or> includesStr (toLowerCase (val (item r))) q)
            \<and> score r =
                (if toLowerCase (key (item r)) = q \<or> toLowerCase (val (item r)) = q then 1
                 else if startsWith (toLowerCase (key (item r))) q \<or> startsWith (toLowerCase (val (item r))) q then 0.8
                 else if includesStr (toLowerCase (key (item r))) q \<and> includesStr (toLowerCase (val (item r))) q then 0.6
                 else 0.4))
         \<and> (\<forall>it \<in> set ts.
               \<not> includesStr (toLowerCase (key it)) q \<and> \<not> includesStr (toLowerCase (val it)) q
               \<longrightarrow> it \<notin> item ` set (popup_search (Some ts) query lim_opt))"
proof -
  from assms have nonempty: "query \<noteq> []"
    by (auto simp: trim_def toLowerCase_def)
  have sub: "\<exists>it \<in> set ts. scoreItem q it = Some r"
    if "r \<in> set (popup_search (Some ts) query lim_opt)" for r
    using that popup_search_subset [OF nonempty, of ts lim_opt] assms(1)
    by (blast dest: scored_candidates)
  show ?thesis
  proof (intro conjI ballI impI)
    fix r assume "r \<in> set (popup_search (Some ts) query lim_opt)"
    with sub obtain it where it: "it \<in> set ts" "scoreItem q it = Some r" by blast
    then have r: "r = \<lparr> item = it, score = (if toLowerCase (key it) = q \<or> toLowerCase (val it) = q then 1
      else if startsWith (toLowerCase (key it)) q \<or> startsWith (toLowerCase (val it)) q then 0.8
      else if includesStr (toLowerCase (key it)) q \<and> includesStr (toLowerCase (val it)) q then 0.6
      else 0.4) \<rparr>"
      and c: "includesStr (toLowerCase (key it)) q \<or> includesStr (toLowerCase (val it)) q"
      by (simp_all add: scoreItem_Some)
    show "item r \<in> set ts" using it r by simp
    show "includesStr (toLowerCase (key (item r))) q \<or> includesStr (toLowerCase (val (item r))) q"
      using c r by simp
    show "score r =
                (if toLowerCase (key (item r)) = q \<or> toLowerCase (val (item r)) = q then 1
                 else if startsWith (toLowerCase (key (item r))) q \<or> startsWith (toLowerCase (val (item r))) q then 0.8
                 else if includesStr (toLowerCase (key (item r))) q \<and> includesStr (toLowerCase (val (item r))) q then 0.6
                 else 0.4)"
      using r by simp
  next
    fix it assume "it \<in> set ts"
      and no: "\<not> includesStr (toLowerCase (key it)) q \<and> \<not> includesStr (toLowerCase (val it)) q"
    show "it \<notin> item ` set (popup_search (Some ts) query lim_opt)"
    proof
      assume "it \<in> item ` set (popup_search (Some ts) query lim_opt)"
      then obtain r where "r \<in> set (popup_search (Some ts) query lim_opt)" "item r = it" by auto
      with sub obtain it' where "scoreItem q it' = Some r" by blast
      with \<open>item r = it\<close> no show False by (auto simp: scoreItem_Some)
    qed
  qed
qed

lemma scored_candidate_in:
  "it \<in> set ts \<Longrightarrow> f it = Some r \<Longrightarrow> r \<in> set (map the (filter (\<lambda>r. r \<noteq> None) (map f ts)))"
  by (induction ts) auto

lemma popup_search_untruncated:
  assumes "query \<noteq> []"
    and "int (length ts) \<le> (case lim_opt of None \<Rightarrow> 20 | Some n \<Rightarrow> if n = 0 then 20 else n)"
  shows "set (popup_search (Some ts) query lim_opt)
           = set (map the (filter (\<lambda>r. r \<noteq> None) (map (scoreItem (trim (toLowerCase query))) ts)))"
proof -
  define xs where "xs = map the (filter (\<lambda>r. r \<noteq> None) (map (scoreItem (trim (toLowerCase query))) ts))"
  define n where "n = (case lim_opt of None \<Rightarrow> 20 | Some n \<Rightarrow> if n = 0 then 20 else n)"
  have eq: "popup_search (Some ts) query lim_opt = slice0 n (sortBy (\<lambda>a b. score b - score a) xs)"
    using assms(1) by (simp add: popup_search_def Let_def xs_def n_def)
  have "length xs \<le> length ts"
    unfolding xs_def by (simp only: length_map) (rule order_trans [OF length_filter_le], simp)
  with assms(2) have "int (length (sortBy (\<lambda>a b. score b - score a) xs)) \<le> n"
    by (simp add: length_sortBy n_def)
  then have "slice0 n (sortBy (\<lambda>a b. score b - score a) xs) = sortBy (\<lambda>a b. score b - score a) xs"
    by (rule slice0_all)
  with eq have "set (popup_search (Some ts) query lim_opt) = set xs"
    by (simp only: set_sortBy)
  then show ?thesis
    by (simp only: xs_def)
qed

lemma popup_search_complete:
  assumes "trim (toLowerCase query) = q" and "q \<noteq> []"
    and "int (length ts) \<le> (case lim_opt of None \<Rightarrow> 20 | Some n \<Rightarrow> if n = 0 then 20 else n)"
    and "it \<in> set ts"
    and "includesStr (toLowerCase (key it)) q \<or> includesStr (toLowerCase (val it)) q"
  shows "it \<in> item ` set (popup_search (Some ts) query lim_opt)"
proof -
  from assms(1,2) have nonempty: "query \<noteq> []"
    by (auto simp: trim_def toLowerCase_def)
  from assms(5) obtain r where r: "scoreItem q it = Some r" "item r = it"
    by (auto simp: scoreItem_Some)
  with assms(4) have "r \<in> set (map the (filter (\<lambda>r. r \<noteq> None) (map (scoreItem q) ts)))"
    by (blast intro: scored_candidate_in)
  then have "r \<in> set (popup_search (Some ts) query lim_opt)"
    using popup_search_untruncated [OF nonempty assms(3)] assms(1) by simp
  with r(2) show ?thesis by blast
qed

text \<open>
  C1 (amended). For a query whose normalized form \<open>q\<close> (lower case, trimmed) is not
  empty, every result of the popup's search is a candidate that contains \<open>q\<close> in its
  lower-cased key or value, and its score is a relevance where higher is better: 1.0 when
  the lower-cased key or value equals \<open>q\<close>, else 0.8 when one of them starts with \<open>q\<close>,
  else 0.6 when both contain \<open>q\<close>, else 0.4 (exactly one contains it). A candidate that
  contains \<open>q\<close> in neither field is the item of no result, and when the candidates are
  no more than the limit (20 by default), every candidate that contains \<open>q\<close> in a field is
  the item of a result.
\<close>

theorem popup_search_tier_scores:
  assumes "trim (toLowerCase query) = q" and "q \<noteq> []"
  shows "(\<forall>r \<in> set (popup_search (Some ts) query lim_opt).
            item r \<in> set ts
            \<and> (includesStr (toLowerCase (key (item r))) q \<or> includesStr (toLowerCase (val (item r))) q)
            \<and> score r =
                (if toLowerCase (key (item r)) = q \<or> toLowerCase (val (item r)) = q then 1
                 else if startsWith (toLowerCase (key (item r))) q \<or> startsWith (toLowerCase (val (item r))) q then 0.8
                 else if includesStr (toLowerCase (key (item r))) q \<and> includesStr (toLowerCase (val (item r))) q then 0.6
                 else 0.4))
         \<and> (\<forall>it \<in> set ts.
               \<not> includesStr (toLowerCase (key it)) q \<and> \<not> includesStr (toLowerCase (val it)) q
               \<longrightarrow> it \<notin> item ` set (popup_search (Some ts) query lim_opt))
         \<and> (int (length ts) \<le> (case lim_opt of None \<Rightarrow> 20 | Some n \<Rightarrow> if n = 0 then 20 else n)
               \<longrightarrow> (\<forall>it \<in> set ts.
                     includesStr (toLowerCase (key it)) q \<or> includesStr (toLowerCase (val it)) q
                     \<longrightarrow> it \<in> item ` set (popup_search (Some ts) query lim_opt)))"
  using popup_search_sound [OF assms, of ts lim_opt] popup_search_complete [OF assms, of ts lim_opt]
  by blast

theorem popup_search_tier_scores_witness:
  "trim (toLowerCase ''Hello'') = ''hello'' \<and> ''hello'' \<noteq> []
   \<and> popup_search (Some [\<lparr>key = ''k'', val = ''say hello''\<rparr>, \<lparr>key = ''z'', val = ''z''\<rparr>]) ''Hello'' None \<noteq> []
   \<and> item (hd (popup_search (Some [\<lparr>key = ''k'', val = ''say hello''\<rparr>, \<lparr>key = ''z'', val = ''z''\<rparr>]) ''Hello'' None))
        \<in> set [\<lparr>key = ''k'', val = ''say hello''\<rparr>, \<lparr>key = ''z'', val = ''z''\<rparr>]
   \<and> \<lparr>key = ''z'', val = ''z''\<rparr>
        \<notin> item ` set (popup_search (Some [\<lparr>key = ''k'', val = ''say hello''\<rparr>, \<lparr>key = ''z'', val = ''z''\<rparr>]) ''Hello'' None)"
proof -
  have h1: "trim (toLowerCase ''Hello'') = ''hello''" by code_simp
  have h2: "''hello'' \<noteq> []" by simp
  have h3: "popup_search (Some [\<lparr>key = ''k'', val = ''say hello''\<rparr>, \<lparr>key = ''z'', val = ''z''\<rparr>]) ''Hello'' None \<noteq> []"
    by code_simp
  have h4: "\<not> includesStr (toLowerCase (key \<lparr>key = ''z'', val = ''z''\<rparr>)) ''hello''
            \<and> \<not> includesStr (toLowerCase (val \<lparr>key = ''z'', val = ''z''\<rparr>)) ''hello''"
    by code_simp
  note t = popup_search_tier_scores [OF h1 h2,
      of "[\<lparr>key = ''k'', val = ''say hello''\<rparr>, \<lparr>key = ''z'', val = ''z''\<rparr>]" None]
  from h3 have "hd (popup_search (Some [\<lparr>key = ''k'', val = ''say hello''\<rparr>, \<lparr>key = ''z'', val = ''z''\<rparr>]) ''Hello'' None)
      \<in> set (popup_search (Some [\<lparr>key = ''k'', val = ''say hello''\<rparr>, \<lparr>key = ''z'', val = ''z''\<rparr>]) ''Hello'' None)"
    by (rule hd_in_set)
  with t have a: "item (hd (popup_search (Some [\<lparr>key = ''k'', val = ''say hello''\<rparr>, \<lparr>key = ''z'', val = ''z''\<rparr>]) ''Hello'' None))
        \<in> set [\<lparr>key = ''k'', val = ''say hello''\<rparr>, \<lparr>key = ''z'', val = ''z''\<rparr>]"
    by blast
  from t h4 have b: "\<lparr>key = ''z'', val = ''z''\<rparr>
        \<notin> item ` set (popup_search (Some [\<lparr>key = ''k'', val = ''say hello''\<rparr>, \<lparr>key = ''z'', val = ''z''\<rparr>]) ''Hello'' None)"
    by (meson list.set_intros(1) list.set_intros(2))
  from h1 h2 h3 a b show ?thesis by blast
qed

text \<open>The claim as stated gives an exact match the score 0.0: the record
  \<open>{key: "k", val: "Hello"}\<close> searched with \<open>hello\<close> is returned with score 1.\<close>

theorem popup_search_exact_counterexample:
  "map score (popup_search (Some [\<lparr>key = ''k'', val = ''Hello''\<rparr>]) ''hello'' None) = [1]
   \<and> map score (popup_search (Some [\<lparr>key = ''k'', val = ''Hello''\<rparr>]) ''hello'' None) \<noteq> [0]"
  by code_simp

text \<open>
  C2 (amended). The results of the popup's search are sorted descending by score (the
  score is a relevance, the best match first): \<open>results[i].score >= results[i+1].score\<close>
  for every valid \<open>i\<close>. The ascending order holds for \<open>SearchResult.sortByScore\<close>, which
  the search does not call.
\<close>

theorem search_results_order:
  "(\<forall>i. Suc i < length (popup_search translations query lim_opt) \<longrightarrow>
       score (popup_search translations query lim_opt ! Suc i) \<le> score (popup_search translations query lim_opt ! i))
   \<and> (\<forall>i. Suc i < length (sortByScore results) \<longrightarrow>
       score (sortByScore results ! i) \<le> score (sortByScore results ! Suc i))"
proof -
  have "sorted_wrt (\<lambda>a b. score b \<le> score a) (popup_search translations query lim_opt)"
    by (auto simp: popup_search_def Let_def sorted_wrt_slice0 sorted_sortBy_desc split: option.splits)
  moreover have "sorted_wrt (\<lambda>a b. score a \<le> score b) (sortByScore results)"
    unfolding sortByScore_def by (rule sorted_sortBy_key)
  ultimately show ?thesis
    by (auto simp: sorted_wrt_iff_nth_less)
qed

theorem search_results_order_witness:
  "Suc 0 < length (popup_search (Some [\<lparr>key = ''a'', val = ''say hello''\<rparr>, \<lparr>key = ''k'', val = ''Hello''\<rparr>]) ''hello'' None)
   \<and> score (popup_search (Some [\<lparr>key = ''a'', val = ''say hello''\<rparr>, \<lparr>key = ''k'', val = ''Hello''\<rparr>]) ''hello'' None ! Suc 0)
       \<le> score (popup_search (Some [\<lparr>key = ''a'', val = ''say hello''\<rparr>, \<lparr>key = ''k'', val = ''Hello''\<rparr>]) ''hello'' None ! 0)"
proof -
  have h: "Suc 0 < length (popup_search (Some [\<lparr>key = ''a'', val = ''say hello''\<rparr>, \<lparr>key = ''k'', val = ''Hello''\<rparr>]) ''hello'' None)"
    by code_simp
  from search_results_order [of "Some [\<lparr>key = ''a'', val = ''say hello''\<rparr>, \<lparr>key = ''k'', val = ''Hello''\<rparr>]" "''hello''" None]
  show ?thesis using h by blast
qed

text \<open>The claim as stated asks for ascending scores: the two candidates below come back
  with the scores 1 and 0.4 in this order.\<close>

theorem popup_search_ascending_counterexample:
  "map score (popup_search (Some [\<lparr>key = ''a'', val = ''say hello''\<rparr>, \<lparr>key = ''k'', val = ''Hello''\<rparr>]) ''hello'' None) = [1, 0.4]
   \<and> \<not> score (popup_search (Some [\<lparr>key = ''a'', val = ''say hello''\<rparr>, \<lparr>key = ''k'', val = ''Hello''\<rparr>]) ''hello'' None ! 0)
         \<le> score (popup_search (Some [\<lparr>key = ''a'', val = ''say hello''\<rparr>, \<lparr>key = ''k'', val = ''Hello''\<rparr>]) ''hello'' None ! Suc 0)"
  by code_simp

section \<open>Properties of the flattener and the sanitizer\<close>

lemma convertEntries_nonblank:
  "e \<in> set (convertEntries kvs) \<Longrightarrow> trim (val e) \<noteq> [] \<and> key e \<noteq> []"
  by (induction kvs rule: convertEntries.induct)
     (auto simp: newTranslationEntry_def split: jsval.splits if_splits sum.splits)

lemma trim_Nil: "trim [] = []"
  by (simp add: trim_def)

lemma flatten_top_string:
  "(k, JStr s) \<in> set kvs \<Longrightarrow> \<lparr>key = k, val = s\<rparr> \<in> set (flatten kvs [])"
  by (induction kvs) (auto simp: Let_def)

text \<open>
  C3 (amended). \<open>DataExtractionService.convertToTranslationEntries\<close> emits a record for
  a string-valued property only when the string is not blank (not empty after trimming),
  so that no record of its output has an empty value. The content script's
  \<open>flattenTranslationData\<close> emits a record for every string-valued property, the empty
  string included: every string-valued property of the input object gives the record
  with its name and its string.
\<close>

theorem string_records_nonempty:
  "(\<forall>e \<in> set (convertToTranslationEntries rawData). val e \<noteq> [] \<and> trim (val e) \<noteq> [])
   \<and> flattenTranslationData (JObj [(k, JStr s)]) [] = [\<lparr> key = k, val = s \<rparr>]
   \<and> ((name, JStr str) \<in> set kvs \<longrightarrow>
        \<lparr> key = name, val = str \<rparr> \<in> set (flattenTranslationData (JObj kvs) []))"
proof (intro conjI ballI impI)
  fix e assume "e \<in> set (convertToTranslationEntries rawData)"
  then have "e \<in> set (convertEntries (objectEntries rawData))"
    by (auto simp: convertToTranslationEntries_def split: if_splits)
  then show t: "trim (val e) \<noteq> []"
    using convertEntries_nonblank by blast
  then show "val e \<noteq> []"
    using trim_Nil by auto
next
  show "flattenTranslationData (JObj [(k, JStr s)]) [] = [\<lparr> key = k, val = s \<rparr>]"
    by (simp add: flattenTranslationData_def)
next
  assume "(name, JStr str) \<in> set kvs"
  then show "\<lparr> key = name, val = str \<rparr> \<in> set (flattenTranslationData (JObj kvs) [])"
    by (simp add: flattenTranslationData_def flatten_top_string)
qed

theorem string_records_nonempty_witness:
  "\<lparr>key = ''a'', val = ''x''\<rparr>
     \<in> set (convertToTranslationEntries (JObj [(''a'', JStr ''x''), (''b'', JStr []), (''c'', JStr ''  '')]))
   \<and> val \<lparr>key = ''a'', val = ''x''\<rparr> \<noteq> []
   \<and> length (convertToTranslationEntries (JObj [(''a'', JStr ''x''), (''b'', JStr []), (''c'', JStr ''  '')])) = 1"
proof -
  have h: "\<lparr>key = ''a'', val = ''x''\<rparr>
     \<in> set (convertToTranslationEntries (JObj [(''a'', JStr ''x''), (''b'', JStr []), (''c'', JStr ''  '')]))"
    by code_simp
  have l: "length (convertToTranslationEntries (JObj [(''a'', JStr ''x''), (''b'', JStr []), (''c'', JStr ''  '')])) = 1"
    by code_simp
  from string_records_nonempty [of "JObj [(''a'', JStr ''x''), (''b'', JStr []), (''c'', JStr ''  '')]"] h l
  show ?thesis by blast
qed

text \<open>The claim as stated has no record with an empty value in the flattener's output:
  \<open>flattenTranslationData({a: ""})\<close> is the one record with key \<open>a\<close> and the empty
  value.\<close>

theorem flatten_empty_string_counterexample:
  "flattenTranslationData (JObj [(''a'', JStr [])]) [] = [\<lparr>key = ''a'', val = []\<rparr>]"
  by code_simp

lemma joinDots_snoc: "p \<noteq> [] \<Longrightarrow> joinDots (p @ [k]) = joinDots p @ ''.'' @ k"
  by (induction p rule: joinDots.induct) auto

lemma joinDots_nonempty: "p \<noteq> [] \<Longrightarrow> hd p \<noteq> [] \<Longrightarrow> joinDots p \<noteq> []"
  by (induction p rule: joinDots.induct) auto

lemma flatten_spec_nested:
  "p \<noteq> [] \<Longrightarrow> hd p \<noteq> [] \<Longrightarrow> flatten kvs (joinDots p) = specFlatten p kvs"
proof (induction p kvs rule: specFlatten.induct)
  case (1 path)
  then show ?case by simp
next
  case (2 path k v rest)
  then show ?case
    by (cases v) (auto simp: joinDots_snoc joinDots_nonempty Let_def)
qed

lemma flatten_spec_top:
  "\<forall>kv \<in> set kvs. fst kv = [] \<longrightarrow> (\<forall>kvs'. snd kv \<noteq> JObj kvs') \<Longrightarrow> flatten kvs [] = specFlatten [] kvs"
proof (induction kvs)
  case Nil
  then show ?case by simp
next
  case (Cons kv kvs)
  obtain k v where kv: "kv = (k, v)" by (cases kv)
  have nested: "flatten kvs' k = specFlatten [k] kvs'" if "k \<noteq> []" for kvs'
    using flatten_spec_nested [of "[k]" kvs'] that by simp
  from Cons.prems kv have "k = [] \<longrightarrow> (\<forall>kvs'. v \<noteq> JObj kvs')" by simp
  with Cons kv nested show ?case
    by (cases v) (auto simp: Let_def)
qed

text \<open>
  C4 (amended). For every input object that has no object under an empty top-level
  property name, \<open>flattenTranslationData\<close> emits exactly the records of \<open>specFlatten\<close>: one record with
  the dotted-path key and the string value for every string leaf reached through plain
  objects only, in enumeration order, with arrays, functions, \<open>null\<close>, numbers and booleans
  skipped without being walked.
\<close>

theorem flatten_dotted_paths:
  "\<forall>kv \<in> set kvs. fst kv = [] \<longrightarrow> (\<forall>kvs'. snd kv \<noteq> JObj kvs') \<Longrightarrow>
   flattenTranslationData (JObj kvs) [] = specFlatten [] kvs"
  by (simp add: flattenTranslationData_def flatten_spec_top)

theorem flatten_dotted_paths_witness:
  "flattenTranslationData
     (JObj [(''a'', JObj [(''b'', JStr ''x'')]), (''n'', JNum 5), (''c'', JObj []), (''d'', JNull),
            (''e'', JFun), (''f'', JArr [JStr ''y''])]) []
   = [\<lparr>key = ''a.b'', val = ''x''\<rparr>]"
proof -
  have h: "\<forall>kv \<in> set [(''a'', JObj [(''b'', JStr ''x'')]), (''n'', JNum 5), (''c'', JObj []), (''d'', JNull),
                    (''e'', JFun), (''f'', JArr [JStr ''y''])]. fst kv = [] \<longrightarrow> (\<forall>kvs'. snd kv \<noteq> JObj kvs')"
    by simp
  have v: "specFlatten [] [(''a'', JObj [(''b'', JStr ''x'')]), (''n'', JNum 5), (''c'', JObj []), (''d'', JNull),
                    (''e'', JFun), (''f'', JArr [JStr ''y''])] = [\<lparr>key = ''a.b'', val = ''x''\<rparr>]"
    by simp
  from flatten_dotted_paths [OF h] v show ?thesis by simp
qed

text \<open>The claim as stated holds for every input object: under the empty property name
  at the top level the key of a leaf in a nested object is not the dotted path \<open>.b\<close> but
  \<open>b\<close>.\<close>

theorem flatten_empty_name_counterexample:
  "flattenTranslationData (JObj [([], JObj [(''b'', JStr ''x'')])]) [] = [\<lparr>key = ''b'', val = ''x''\<rparr>]
   \<and> specFlatten [] [([], JObj [(''b'', JStr ''x'')])] = [\<lparr>key = ''.b'', val = ''x''\<rparr>]"
  by code_simp











section \<open>Properties of the product page pattern\<close>

lemma of_char_lt_256: "(of_char c :: nat) < 256"
  by (cases c) (simp add: of_char_def)

lemma code_canonicalize:
  "(of_char (canonicalize c) :: nat) = (if 97 \<le> (of_char c :: nat) \<and> (of_char c :: nat) \<le> 122 then of_char c - 32 else of_char c)"
proof -
  have "(of_char c :: nat) - 32 < 256"
    using of_char_lt_256 [of c] by arith
  then show ?thesis
    by (simp add: canonicalize_def Let_def)
qed

lemma code_toLowerChar:
  "(of_char (toLowerChar c) :: nat) =
     (if (65 \<le> (of_char c :: nat) \<and> (of_char c :: nat) \<le> 90)
         \<or> (192 \<le> (of_char c :: nat) \<and> (of_char c :: nat) \<le> 222 \<and> (of_char c :: nat) \<noteq> 215)
      then of_char c + 32 else of_char c)"
  by (simp add: toLowerChar_def Let_def)

lemma char_eq_code: "x = y \<longleftrightarrow> (of_char x :: nat) = of_char y"
  by simp

lemma fold_codes:
  fixes n m :: nat
  assumes "m < 128"
  shows "(if 97 \<le> n \<and> n \<le> 122 then n - 32 else n) = (if 97 \<le> m \<and> m \<le> 122 then m - 32 else m)
     \<longleftrightarrow> (if (65 \<le> n \<and> n \<le> 90) \<or> (192 \<le> n \<and> n \<le> 222 \<and> n \<noteq> 215) then n + 32 else n)
          = (if (65 \<le> m \<and> m \<le> 90) \<or> (192 \<le> m \<and> m \<le> 222 \<and> m \<noteq> 215) then m + 32 else m)"
  using assms by (auto split: if_splits)

lemma canon_lower:
  assumes "(of_char p :: nat) < 128"
  shows "canonicalize c = canonicalize p \<longleftrightarrow> toLowerChar c = toLowerChar p"
proof -
  have "canonicalize c = canonicalize p \<longleftrightarrow> (of_char (canonicalize c) :: nat) = of_char (canonicalize p)"
    by (rule char_eq_code)
  moreover have "toLowerChar c = toLowerChar p \<longleftrightarrow> (of_char (toLowerChar c) :: nat) = of_char (toLowerChar p)"
    by (rule char_eq_code)
  moreover have "(of_char (canonicalize c) :: nat) = of_char (canonicalize p)
      \<longleftrightarrow> (of_char (toLowerChar c) :: nat) = of_char (toLowerChar p)"
    unfolding code_canonicalize code_toLowerChar
    using assms by (rule fold_codes)
  ultimately show ?thesis by simp
qed

lemma matchLiteral_Some:
  assumes "list_all (\<lambda>p. (of_char p :: nat) < 128 \<and> toLowerChar p = p) pat"
  shows "matchLiteral pat s = Some r \<longleftrightarrow> (\<exists>lit. s = lit @ r \<and> toLowerCase lit = pat)"
  using assms
proof (induction pat s rule: matchLiteral.induct)
  case (1 s)
  then show ?case by (auto simp: toLowerCase_def)
next
  case (2 p ps)
  then show ?case by (auto simp: toLowerCase_def)
next
  case (3 p ps c cs)
  from "3.prems" have p: "(of_char p :: nat) < 128" "toLowerChar p = p"
    and ps: "list_all (\<lambda>p. (of_char p :: nat) < 128 \<and> toLowerChar p = p) ps"
    by simp_all
  have ceq: "canonicalize c = canonicalize p \<longleftrightarrow> toLowerChar c = p"
    using canon_lower [OF p(1), of c] p(2) by simp
  show ?case
  proof (cases "canonicalize c = canonicalize p")
    case True
    have "(\<exists>lit. c # cs = lit @ r \<and> toLowerCase lit = p # ps)
          \<longleftrightarrow> (\<exists>lit'. cs = lit' @ r \<and> toLowerCase lit' = ps)"
    proof
      assume "\<exists>lit. c # cs = lit @ r \<and> toLowerCase lit = p # ps"
      then obtain lit where l: "c # cs = lit @ r" "toLowerCase lit = p # ps" by blast
      from l(2) obtain x lit' where "lit = x # lit'" by (cases lit) (auto simp: toLowerCase_def)
      with l show "\<exists>lit'. cs = lit' @ r \<and> toLowerCase lit' = ps"
        by (auto simp: toLowerCase_def)
    next
      assume "\<exists>lit'. cs = lit' @ r \<and> toLowerCase lit' = ps"
      then obtain lit' where "cs = lit' @ r" "toLowerCase lit' = ps" by blast
      with True ceq have "c # cs = (c # lit') @ r \<and> toLowerCase (c # lit') = p # ps"
        by (simp add: toLowerCase_def)
      then show "\<exists>lit. c # cs = lit @ r \<and> toLowerCase lit = p # ps" by blast
    qed
    with "3.IH" [OF True ps] True show ?thesis by simp
  next
    case False
    have "\<not> (\<exists>lit. c # cs = lit @ r \<and> toLowerCase lit = p # ps)"
    proof
      assume "\<exists>lit. c # cs = lit @ r \<and> toLowerCase lit = p # ps"
      then obtain lit where l: "c # cs = lit @ r" "toLowerCase lit = p # ps" by blast
      from l(2) obtain x lit' where "lit = x # lit'" by (cases lit) (auto simp: toLowerCase_def)
      with l have "toLowerChar c = p" by (auto simp: toLowerCase_def)
      with ceq False show False by simp
    qed
    with False show ?thesis by simp
  qed
qed

lemma toLowerChar_slash: "toLowerChar c = CHR ''/'' \<longleftrightarrow> c = CHR ''/''"
proof -
  have "toLowerChar c = CHR ''/'' \<longleftrightarrow> (of_char (toLowerChar c) :: nat) = of_char (CHR ''/'')"
    by (rule char_eq_code)
  also have "\<dots> \<longleftrightarrow> (of_char c :: nat) = of_char (CHR ''/'')"
    unfolding code_toLowerChar by (auto split: if_splits)
  also have "\<dots> \<longleftrightarrow> c = CHR ''/''"
    by (rule char_eq_code [symmetric])
  finally show ?thesis .
qed

lemma toLowerChar_hyphen: "toLowerChar c = CHR ''-'' \<longleftrightarrow> c = CHR ''-''"
proof -
  have "toLowerChar c = CHR ''-'' \<longleftrightarrow> (of_char (toLowerChar c) :: nat) = of_char (CHR ''-'')"
    by (rule char_eq_code)
  also have "\<dots> \<longleftrightarrow> (of_char c :: nat) = of_char (CHR ''-'')"
    unfolding code_toLowerChar by (auto split: if_splits)
  also have "\<dots> \<longleftrightarrow> c = CHR ''-''"
    by (rule char_eq_code [symmetric])
  finally show ?thesis .
qed

lemma matchLiteral_slash: "matchLiteral ''/'' s = Some r \<longleftrightarrow> s = CHR ''/'' # r"
proof -
  have pat: "list_all (\<lambda>p. (of_char p :: nat) < 128 \<and> toLowerChar p = p) ''/''"
    by (simp add: toLowerChar_def)
  have "(\<exists>lit. s = lit @ r \<and> toLowerCase lit = ''/'') \<longleftrightarrow> s = CHR ''/'' # r"
    by (auto simp: toLowerCase_def toLowerChar_slash)
  with matchLiteral_Some [OF pat, of s r] show ?thesis by simp
qed

lemma matchLiteral_hyphen: "matchLiteral ''-'' s = Some r \<longleftrightarrow> s = CHR ''-'' # r"
proof -
  have pat: "list_all (\<lambda>p. (of_char p :: nat) < 128 \<and> toLowerChar p = p) ''-''"
    by (simp add: toLowerChar_def)
  have "(\<exists>lit. s = lit @ r \<and> toLowerCase lit = ''-'') \<longleftrightarrow> s = CHR ''-'' # r"
    by (auto simp: toLowerCase_def toLowerChar_hyphen)
  with matchLiteral_Some [OF pat, of s r] show ?thesis by simp
qed

lemma matchTwoLetters_Some:
  "matchTwoLetters s = Some r \<longleftrightarrow> (\<exists>a b. s = a # b # r \<and> isAsciiLetter a \<and> isAsciiLetter b)"
  by (cases s rule: matchTwoLetters.cases) auto

lemma matchProductId_iff:
  "matchProductId s \<longleftrightarrow> (\<exists>lit d rest. s = lit @ d # rest \<and> toLowerCase lit = ''/product/'' \<and> isDigit d)"
proof -
  have pat: "list_all (\<lambda>p. (of_char p :: nat) < 128 \<and> toLowerChar p = p) ''/product/''"
    by (simp add: toLowerChar_def)
  note m = matchLiteral_Some [OF pat, of s]
  show ?thesis
  proof
    assume "matchProductId s"
    then obtain r d rest where "matchLiteral ''/product/'' s = Some r" "r = d # rest" "isDigit d"
      by (auto simp: matchProductId_def split: option.splits list.splits)
    with m show "\<exists>lit d rest. s = lit @ d # rest \<and> toLowerCase lit = ''/product/'' \<and> isDigit d"
      by blast
  next
    assume "\<exists>lit d rest. s = lit @ d # rest \<and> toLowerCase lit = ''/product/'' \<and> isDigit d"
    then obtain lit d rest where s: "s = lit @ d # rest" "toLowerCase lit = ''/product/''" "isDigit d"
      by blast
    then have "matchLiteral ''/product/'' s = Some (d # rest)"
      using m [of "d # rest"] by blast
    with s(3) show "matchProductId s"
      by (simp add: matchProductId_def)
  qed
qed

lemma digits_then_rest:
  "(\<exists>ds rest. t = ds @ rest \<and> ds \<noteq> [] \<and> list_all isDigit ds) \<longleftrightarrow> (\<exists>d rest. t = d # rest \<and> isDigit d)"
proof
  assume "\<exists>ds rest. t = ds @ rest \<and> ds \<noteq> [] \<and> list_all isDigit ds"
  then obtain ds rest where "t = ds @ rest" "ds \<noteq> []" "list_all isDigit ds" by blast
  then show "\<exists>d rest. t = d # rest \<and> isDigit d"
    by (cases ds) auto
next
  assume "\<exists>d rest. t = d # rest \<and> isDigit d"
  then obtain d rest where "t = d # rest" "isDigit d" by blast
  then have "t = [d] @ rest \<and> [d] \<noteq> [] \<and> list_all isDigit [d]" by simp
  then show "\<exists>ds rest. t = ds @ rest \<and> ds \<noteq> [] \<and> list_all isDigit ds" by blast
qed

lemma matchProductId_spec:
  "matchProductId s \<longleftrightarrow>
     (\<exists>lit ds rest. s = lit @ ds @ rest \<and> toLowerCase lit = ''/product/'' \<and> ds \<noteq> [] \<and> list_all isDigit ds)"
proof -
  have "(\<exists>lit ds rest. s = lit @ ds @ rest \<and> toLowerCase lit = ''/product/'' \<and> ds \<noteq> [] \<and> list_all isDigit ds)
        \<longleftrightarrow> (\<exists>lit t. s = lit @ t \<and> toLowerCase lit = ''/product/''
                    \<and> (\<exists>ds rest. t = ds @ rest \<and> ds \<noteq> [] \<and> list_all isDigit ds))"
    by blast
  also have "\<dots> \<longleftrightarrow> (\<exists>lit t. s = lit @ t \<and> toLowerCase lit = ''/product/'' \<and> (\<exists>d rest. t = d # rest \<and> isDigit d))"
    by (simp only: digits_then_rest)
  also have "\<dots> \<longleftrightarrow> (\<exists>lit d rest. s = lit @ d # rest \<and> toLowerCase lit = ''/product/'' \<and> isDigit d)"
    by blast
  finally show ?thesis
    by (simp only: matchProductId_iff)
qed

text \<open>
  C6 (amended). \<open>isProductPage(pathname)\<close> is true if and only if the pathname begins
  with a slash, a 2-letter language code optionally followed by a hyphen and a 2-letter
  region, then \<open>/product/\<close>, then one or more decimal digits, where letter case is ignored
  in the language code and in the word \<open>product\<close> alike (the \<open>i\<close> flag covers the whole
  pattern); what follows the digits does not matter. The plural \<open>products\<close>, a missing
  id, a non-numeric id and a missing language prefix give false.
\<close>

theorem isProductPage_characterisation: "isProductPage p \<longleftrightarrow> productPathSpec p"
proof
  assume "isProductPage p"
  then obtain s1 s2 where s1: "matchLiteral ''/'' p = Some s1" and s2: "matchTwoLetters s1 = Some s2"
    and alt: "(\<exists>s3 s4. matchLiteral ''-'' s2 = Some s3 \<and> matchTwoLetters s3 = Some s4 \<and> matchProductId s4)
              \<or> matchProductId s2"
    by (auto simp: isProductPage_def productPageRegex_test_def split: if_splits option.splits)
  from s1 have p: "p = CHR ''/'' # s1" by (simp add: matchLiteral_slash)
  from s2 obtain a b where ab: "s1 = a # b # s2" "isAsciiLetter a" "isAsciiLetter b"
    by (auto simp: matchTwoLetters_Some)
  from alt show "productPathSpec p"
  proof
    assume "\<exists>s3 s4. matchLiteral ''-'' s2 = Some s3 \<and> matchTwoLetters s3 = Some s4 \<and> matchProductId s4"
    then obtain s3 s4 where "matchLiteral ''-'' s2 = Some s3" "matchTwoLetters s3 = Some s4" "matchProductId s4"
      by blast
    then obtain c d where cd: "s2 = CHR ''-'' # c # d # s4" "isAsciiLetter c" "isAsciiLetter d"
      and m: "matchProductId s4"
      by (auto simp: matchLiteral_hyphen matchTwoLetters_Some)
    from m obtain lit ds rest where "s4 = lit @ ds @ rest" "toLowerCase lit = ''/product/''" "ds \<noteq> []" "list_all isDigit ds"
      unfolding matchProductId_spec by blast
    with p ab cd have "p = ''/'' @ [a, b] @ [CHR ''-'', c, d] @ lit @ ds @ rest
        \<and> isAsciiLetter a \<and> isAsciiLetter b
        \<and> ([CHR ''-'', c, d] = [] \<or> (\<exists>c' d'. [CHR ''-'', c, d] = [CHR ''-'', c', d'] \<and> isAsciiLetter c' \<and> isAsciiLetter d'))
        \<and> toLowerCase lit = ''/product/'' \<and> ds \<noteq> [] \<and> list_all isDigit ds"
      by simp
    then show ?thesis unfolding productPathSpec_def by blast
  next
    assume "matchProductId s2"
    then obtain lit ds rest where "s2 = lit @ ds @ rest" "toLowerCase lit = ''/product/''" "ds \<noteq> []" "list_all isDigit ds"
      unfolding matchProductId_spec by blast
    with p ab have "p = ''/'' @ [a, b] @ [] @ lit @ ds @ rest
        \<and> isAsciiLetter a \<and> isAsciiLetter b
        \<and> ([] = ([]::string) \<or> (\<exists>c' d'. [] = [CHR ''-'', c', d'] \<and> isAsciiLetter c' \<and> isAsciiLetter d'))
        \<and> toLowerCase lit = ''/product/'' \<and> ds \<noteq> [] \<and> list_all isDigit ds"
      by simp
    then show ?thesis unfolding productPathSpec_def by blast
  qed
next
  assume "productPathSpec p"
  then obtain a b region lit ds rest where p: "p = ''/'' @ [a, b] @ region @ lit @ ds @ rest"
    and ab: "isAsciiLetter a" "isAsciiLetter b"
    and region: "region = [] \<or> (\<exists>c d. region = [CHR ''-'', c, d] \<and> isAsciiLetter c \<and> isAsciiLetter d)"
    and rest: "toLowerCase lit = ''/product/''" "ds \<noteq> []" "list_all isDigit ds"
    unfolding productPathSpec_def by blast
  from rest have m: "matchProductId (lit @ ds @ rest)"
    unfolding matchProductId_spec by blast
  have s1: "matchLiteral ''/'' p = Some ([a, b] @ region @ lit @ ds @ rest)"
    using p by (simp add: matchLiteral_slash)
  have s2: "matchTwoLetters ([a, b] @ region @ lit @ ds @ rest) = Some (region @ lit @ ds @ rest)"
    using ab by simp
  from region have "(case matchLiteral ''-'' (region @ lit @ ds @ rest) of
                  None \<Rightarrow> False
                | Some s3 \<Rightarrow> (case matchTwoLetters s3 of None \<Rightarrow> False | Some s4 \<Rightarrow> matchProductId s4))
               \<or> matchProductId (region @ lit @ ds @ rest)"
  proof
    assume "region = []"
    with m show ?thesis by simp
  next
    assume "\<exists>c d. region = [CHR ''-'', c, d] \<and> isAsciiLetter c \<and> isAsciiLetter d"
    then obtain c d where r: "region = [CHR ''-'', c, d]" "isAsciiLetter c" "isAsciiLetter d" by blast
    have "matchLiteral ''-'' (region @ lit @ ds @ rest) = Some ([c, d] @ lit @ ds @ rest)"
      using r by (simp add: matchLiteral_hyphen)
    moreover have "matchTwoLetters ([c, d] @ lit @ ds @ rest) = Some (lit @ ds @ rest)"
      using r by simp
    ultimately show ?thesis using m by simp
  qed
  with s1 s2 p show "isProductPage p"
    by (simp add: isProductPage_def productPageRegex_test_def)
qed

theorem isProductPage_characterisation_witness:
  "productPathSpec ''/zh-TW/product/123/reviews''
   \<and> \<not> productPathSpec ''/en/products/123''
   \<and> \<not> productPathSpec ''/en/product/''
   \<and> \<not> productPathSpec ''/en/product/abc''
   \<and> \<not> productPathSpec ''/product/123''"
proof -
  have "isProductPage ''/zh-TW/product/123/reviews''"
    and "\<not> isProductPage ''/en/products/123''"
    and "\<not> isProductPage ''/en/product/''"
    and "\<not> isProductPage ''/en/product/abc''"
    and "\<not> isProductPage ''/product/123''"
    by code_simp+
  then show ?thesis
    by (simp only: isProductPage_characterisation simp_thms)
qed

text \<open>The claim as stated asks for the literal \<open>/product/\<close>: the path below does not
  contain it and is a product page all the same.\<close>

theorem isProductPage_uppercase_counterexample:
  "isProductPage ''/en/PRODUCT/123'' \<and> \<not> sublist ''/product/'' ''/en/PRODUCT/123''"
  by code_simp

section \<open>Properties of the SearchService entry points\<close>






section \<open>Properties of the data extraction\<close>

lemma extractBody_result:
  "extractBody pc g = Inr r \<Longrightarrow>
     (case r of Failure reason \<Rightarrow> reason \<noteq> [] | Success d src strat n \<Rightarrow> d \<noteq> [] \<and> n = length d)"
  by (auto simp: extractBody_def Let_def split: sum.splits option.splits if_splits prod.splits)

lemma extractFromNuxt_absent:
  "\<forall>v. getProp g ''__NUXT__'' = Inr v \<longrightarrow> \<not> truthy v \<Longrightarrow> \<exists>e. extractFromNuxt pc g = Inl e"
  by (auto simp: extractFromNuxt_def Let_def split: sum.splits)

lemma extractFromInitState_absent:
  "\<forall>v. getProp g ''__INIT_STATE__'' = Inr v \<longrightarrow> \<not> truthy v \<Longrightarrow> \<exists>e. extractFromInitState g = Inl e"
  by (auto simp: extractFromInitState_def Let_def split: sum.splits)

lemma extraction_total:
  "\<exists>r. DataExtractionService_extractTranslationData window pageContext globalScope = Inr r
       \<and> (case r of Failure reason \<Rightarrow> reason \<noteq> [] | Success d src strat n \<Rightarrow> d \<noteq> [] \<and> n = length d)"
proof (cases pageContext)
  case None
  then show ?thesis by (simp add: DataExtractionService_extractTranslationData_def)
next
  case (Some pc)
  define g where "g = (if globalScope = JUndefined then window else globalScope)"
  show ?thesis
  proof (cases "isKKdayDomain_flag pc")
    case False
    with Some show ?thesis by (simp add: DataExtractionService_extractTranslationData_def)
  next
    case True
    show ?thesis
    proof (cases "extractBody pc g")
      case (Inl e)
      with Some True show ?thesis
        by (simp add: DataExtractionService_extractTranslationData_def g_def)
    next
      case (Inr r)
      with Some True extractBody_result [OF Inr] show ?thesis
        by (simp add: DataExtractionService_extractTranslationData_def g_def)
    qed
  qed
qed

lemma absent_failure:
  assumes "isKKdayDomain_flag pc" and "g \<noteq> JUndefined"
    and "if isProductPage_flag pc then (\<forall>v. getProp g ''__NUXT__'' = Inr v \<longrightarrow> \<not> truthy v)
         else (\<forall>v. getProp g ''__INIT_STATE__'' = Inr v \<longrightarrow> \<not> truthy v)"
  shows "\<exists>reason. DataExtractionService_extractTranslationData window (Some pc) g = Inr (Failure (''Data extraction failed: '' @ reason))"
proof (cases "isProductPage_flag pc")
  case True
  with assms(3) obtain e where "extractFromNuxt pc g = Inl e"
    using extractFromNuxt_absent [of g pc] by auto
  with True assms(1,2) show ?thesis
    by (simp add: DataExtractionService_extractTranslationData_def extractBody_def getDataSourceStrategy_def)
next
  case False
  with assms(3) obtain e where "extractFromInitState g = Inl e"
    using extractFromInitState_absent [of g] by auto
  with False assms(1,2) show ?thesis
    by (simp add: DataExtractionService_extractTranslationData_def extractBody_def getDataSourceStrategy_def)
qed

lemma convertEntries_no_strings:
  "\<forall>kv \<in> set kvs. \<forall>s. snd kv = JStr s \<longrightarrow> trim s = [] \<or> fst kv = [] \<Longrightarrow> convertEntries kvs = []"
  by (induction kvs rule: convertEntries.induct)
     (auto simp: newTranslationEntry_def split: jsval.splits)

lemma convert_no_strings:
  "\<forall>kv \<in> set (objectEntries raw). \<forall>s. snd kv = JStr s \<longrightarrow> trim s = [] \<or> fst kv = [] \<Longrightarrow>
   convertToTranslationEntries raw = []"
  by (simp add: convertToTranslationEntries_def convertEntries_no_strings)

lemma extract_on_target:
  assumes "isKKdayDomain_flag pc" and "g \<noteq> JUndefined"
  shows "DataExtractionService_extractTranslationData window (Some pc) g
           = (case extractBody pc g of Inr r \<Rightarrow> Inr r
              | Inl error \<Rightarrow> Inr (Failure (''Data extraction failed: '' @ message error)))"
  using assms by (simp add: DataExtractionService_extractTranslationData_def)

lemma extractBody_nuxt:
  assumes "isKKdayDomain_flag pc" and "isProductPage_flag pc"
  shows "extractBody pc g =
     (case extractFromNuxt pc g of
        Inl e \<Rightarrow> Inl e
      | Inr (rawData, dataSourcePath) \<Rightarrow>
          if convertToTranslationEntries rawData = [] then
            (if truthy rawData then Inr (Failure ''No valid translation entries found'')
             else Inr (Failure ''No translation data found in global variables''))
          else if truthy rawData then Inr (Success (convertToTranslationEntries rawData) dataSourcePath ''nuxt''
                      (length (convertToTranslationEntries rawData)))
          else Inr (Failure ''No translation data found in global variables''))"
  using assms
  by (simp add: extractBody_def getDataSourceStrategy_def Let_def split: sum.splits prod.splits)

lemma extractBody_init:
  assumes "isKKdayDomain_flag pc" and "\<not> isProductPage_flag pc"
  shows "extractBody pc g =
     (case extractFromInitState g of
        Inl e \<Rightarrow> Inl e
      | Inr (rawData, dataSourcePath) \<Rightarrow>
          if convertToTranslationEntries rawData = [] then
            (if truthy rawData then Inr (Failure ''No valid translation entries found'')
             else Inr (Failure ''No translation data found in global variables''))
          else if truthy rawData then Inr (Success (convertToTranslationEntries rawData) dataSourcePath ''init_state''
                      (length (convertToTranslationEntries rawData)))
          else Inr (Failure ''No translation data found in global variables''))"
  using assms
  by (simp add: extractBody_def getDataSourceStrategy_def Let_def split: sum.splits prod.splits)

lemma extractFromNuxt_cases:
  assumes "getProp g ''__NUXT__'' = Inr nuxt"
  shows "\<not> truthy nuxt \<Longrightarrow> extractFromNuxt pc g = Inl (Error ''__NUXT__ global variable not found'')"
    and "truthy nuxt \<Longrightarrow> getProp nuxt ''state'' = Inr st \<Longrightarrow> \<not> truthy st \<Longrightarrow>
         extractFromNuxt pc g = Inl (Error ''__NUXT__.state not found'')"
    and "truthy nuxt \<Longrightarrow> getProp nuxt ''state'' = Inr st \<Longrightarrow> truthy st \<Longrightarrow>
         getProp st (''$si18n_'' @ (if language pc \<noteq> [] then language pc else ''zh-tw'')) = Inr raw \<Longrightarrow>
         extractFromNuxt pc g =
           (if \<not> truthy raw
            then Inl (Error (''Translation data not found at __NUXT__.state['' @ [CHR 0x27] @ ''$si18n_''
                   @ (if language pc \<noteq> [] then language pc else ''zh-tw'') @ [CHR 0x27] @ '']''))
            else Inr (raw, ''__NUXT__.state['' @ [CHR 0x27] @ ''$si18n_''
                   @ (if language pc \<noteq> [] then language pc else ''zh-tw'') @ [CHR 0x27] @ '']''))"
  using assms by (simp_all add: extractFromNuxt_def Let_def)

lemma extractFromInitState_cases:
  assumes "getProp g ''__INIT_STATE__'' = Inr initState"
  shows "\<not> truthy initState \<Longrightarrow> extractFromInitState g = Inl (Error ''__INIT_STATE__ global variable not found'')"
    and "truthy initState \<Longrightarrow> getProp initState ''lang'' = Inr raw \<Longrightarrow>
         extractFromInitState g =
           (if \<not> truthy raw then Inl (Error ''Translation data not found at __INIT_STATE__.lang'')
            else Inr (raw, ''__INIT_STATE__.lang''))"
  using assms by (simp_all add: extractFromInitState_def Let_def)


lemma getProp_Inr: "g \<noteq> JUndefined \<Longrightarrow> g \<noteq> JNull \<Longrightarrow> \<exists>v. getProp g name = Inr v"
  by (cases g) (auto split: option.splits)

lemma null_scope_failure:
  assumes "isKKdayDomain_flag pc"
  shows "\<exists>reason. DataExtractionService_extractTranslationData window (Some pc) JNull
           = Inr (Failure (''Data extraction failed: '' @ reason))"
proof (cases "isProductPage_flag pc")
  case True
  have "\<exists>e. extractFromNuxt pc JNull = Inl e"
    by (simp add: extractFromNuxt_def Let_def)
  then show ?thesis
    using assms True by (auto simp: extract_on_target extractBody_nuxt)
next
  case False
  have "\<exists>e. extractFromInitState JNull = Inl e"
    by (simp add: extractFromInitState_def Let_def)
  then show ?thesis
    using assms False by (auto simp: extract_on_target extractBody_init)
qed

lemma nuxt_outcomes:
  assumes "isKKdayDomain_flag pc" and "g \<noteq> JUndefined" and "isProductPage_flag pc"
    and "getProp g ''__NUXT__'' = Inr nuxt"
  shows "(\<not> truthy nuxt \<longrightarrow>
            DataExtractionService_extractTranslationData window (Some pc) g
              = Inr (Failure ''Data extraction failed: __NUXT__ global variable not found''))
       \<and> (truthy nuxt \<and> getProp nuxt ''state'' = Inr st \<longrightarrow>
            (\<not> truthy st \<longrightarrow>
               DataExtractionService_extractTranslationData window (Some pc) g
                 = Inr (Failure ''Data extraction failed: __NUXT__.state not found''))
          \<and> (truthy st
               \<and> getProp st (''$si18n_'' @ (if language pc \<noteq> [] then language pc else ''zh-tw'')) = Inr raw \<longrightarrow>
               (\<not> truthy raw \<longrightarrow>
                  DataExtractionService_extractTranslationData window (Some pc) g
                    = Inr (Failure (''Data extraction failed: Translation data not found at __NUXT__.state[''
                          @ [CHR 0x27] @ ''$si18n_'' @ (if language pc \<noteq> [] then language pc else ''zh-tw'')
                          @ [CHR 0x27] @ '']'')))
             \<and> (truthy raw \<and> convertToTranslationEntries raw = [] \<longrightarrow>
                  DataExtractionService_extractTranslationData window (Some pc) g
                    = Inr (Failure ''No valid translation entries found''))
             \<and> (truthy raw \<and> convertToTranslationEntries raw \<noteq> [] \<longrightarrow>
                  DataExtractionService_extractTranslationData window (Some pc) g
                    = Inr (Success (convertToTranslationEntries raw)
                            (''__NUXT__.state['' @ [CHR 0x27] @ ''$si18n_''
                               @ (if language pc \<noteq> [] then language pc else ''zh-tw'') @ [CHR 0x27] @ '']'')
                            ''nuxt'' (length (convertToTranslationEntries raw))))))"
proof (intro conjI impI; (elim conjE)?)
  assume "\<not> truthy nuxt"
  then show "DataExtractionService_extractTranslationData window (Some pc) g
              = Inr (Failure ''Data extraction failed: __NUXT__ global variable not found'')"
    using assms extractFromNuxt_cases(1) [OF assms(4), of pc]
    by (simp add: extract_on_target extractBody_nuxt)
next
  assume "truthy nuxt" "getProp nuxt ''state'' = Inr st" "\<not> truthy st"
  then show "DataExtractionService_extractTranslationData window (Some pc) g
                 = Inr (Failure ''Data extraction failed: __NUXT__.state not found'')"
    using assms extractFromNuxt_cases(2) [OF assms(4), of st pc]
    by (simp add: extract_on_target extractBody_nuxt)
next
  assume h: "truthy nuxt" "getProp nuxt ''state'' = Inr st" "truthy st"
    "getProp st (''$si18n_'' @ (if language pc \<noteq> [] then language pc else ''zh-tw'')) = Inr raw"
    "\<not> truthy raw"
  show "DataExtractionService_extractTranslationData window (Some pc) g
                    = Inr (Failure (''Data extraction failed: Translation data not found at __NUXT__.state[''
                          @ [CHR 0x27] @ ''$si18n_'' @ (if language pc \<noteq> [] then language pc else ''zh-tw'')
                          @ [CHR 0x27] @ '']''))"
    using assms(1-3) h(5) extractFromNuxt_cases(3) [OF assms(4) h(1) h(2) h(3) h(4)]
    by (simp add: extract_on_target extractBody_nuxt)
next
  assume h: "truthy nuxt" "getProp nuxt ''state'' = Inr st" "truthy st"
    "getProp st (''$si18n_'' @ (if language pc \<noteq> [] then language pc else ''zh-tw'')) = Inr raw"
    "truthy raw" "convertToTranslationEntries raw = []"
  show "DataExtractionService_extractTranslationData window (Some pc) g
                    = Inr (Failure ''No valid translation entries found'')"
    using assms(1-3) h(5,6) extractFromNuxt_cases(3) [OF assms(4) h(1) h(2) h(3) h(4)]
    by (simp add: extract_on_target extractBody_nuxt)
next
  assume h: "truthy nuxt" "getProp nuxt ''state'' = Inr st" "truthy st"
    "getProp st (''$si18n_'' @ (if language pc \<noteq> [] then language pc else ''zh-tw'')) = Inr raw"
    "truthy raw" "convertToTranslationEntries raw \<noteq> []"
  show "DataExtractionService_extractTranslationData window (Some pc) g
                    = Inr (Success (convertToTranslationEntries raw)
                            (''__NUXT__.state['' @ [CHR 0x27] @ ''$si18n_''
                               @ (if language pc \<noteq> [] then language pc else ''zh-tw'') @ [CHR 0x27] @ '']'')
                            ''nuxt'' (length (convertToTranslationEntries raw)))"
    using assms(1-3) h(5,6) extractFromNuxt_cases(3) [OF assms(4) h(1) h(2) h(3) h(4)]
    by (simp add: extract_on_target extractBody_nuxt)
qed

lemma init_outcomes:
  assumes "isKKdayDomain_flag pc" and "g \<noteq> JUndefined" and "\<not> isProductPage_flag pc"
    and "getProp g ''__INIT_STATE__'' = Inr initState"
  shows "(\<not> truthy initState \<longrightarrow>
            DataExtractionService_extractTranslationData window (Some pc) g
              = Inr (Failure ''Data extraction failed: __INIT_STATE__ global variable not found''))
       \<and> (truthy initState \<and> getProp initState ''lang'' = Inr raw \<longrightarrow>
            (\<not> truthy raw \<longrightarrow>
               DataExtractionService_extractTranslationData window (Some pc) g
                 = Inr (Failure ''Data extraction failed: Translation data not found at __INIT_STATE__.lang''))
          \<and> (truthy raw \<and> convertToTranslationEntries raw = [] \<longrightarrow>
               DataExtractionService_extractTranslationData window (Some pc) g
                 = Inr (Failure ''No valid translation entries found''))
          \<and> (truthy raw \<and> convertToTranslationEntries raw \<noteq> [] \<longrightarrow>
               DataExtractionService_extractTranslationData window (Some pc) g
                 = Inr (Success (convertToTranslationEntries raw) ''__INIT_STATE__.lang'' ''init_state''
                         (length (convertToTranslationEntries raw)))))"
proof (intro conjI impI; (elim conjE)?)
  assume "\<not> truthy initState"
  then show "DataExtractionService_extractTranslationData window (Some pc) g
              = Inr (Failure ''Data extraction failed: __INIT_STATE__ global variable not found'')"
    using assms extractFromInitState_cases(1) [OF assms(4)]
    by (simp add: extract_on_target extractBody_init)
next
  assume h: "truthy initState" "getProp initState ''lang'' = Inr raw" "\<not> truthy raw"
  show "DataExtractionService_extractTranslationData window (Some pc) g
                 = Inr (Failure ''Data extraction failed: Translation data not found at __INIT_STATE__.lang'')"
    using assms(1-3) h(3) extractFromInitState_cases(2) [OF assms(4) h(1) h(2)]
    by (simp add: extract_on_target extractBody_init)
next
  assume h: "truthy initState" "getProp initState ''lang'' = Inr raw" "truthy raw"
    "convertToTranslationEntries raw = []"
  show "DataExtractionService_extractTranslationData window (Some pc) g
                 = Inr (Failure ''No valid translation entries found'')"
    using assms(1-3) h(3,4) extractFromInitState_cases(2) [OF assms(4) h(1) h(2)]
    by (simp add: extract_on_target extractBody_init)
next
  assume h: "truthy initState" "getProp initState ''lang'' = Inr raw" "truthy raw"
    "convertToTranslationEntries raw \<noteq> []"
  show "DataExtractionService_extractTranslationData window (Some pc) g
                 = Inr (Success (convertToTranslationEntries raw) ''__INIT_STATE__.lang'' ''init_state''
                         (length (convertToTranslationEntries raw)))"
    using assms(1-3) h(3,4) extractFromInitState_cases(2) [OF assms(4) h(1) h(2)]
    by (simp add: extract_on_target extractBody_init)
qed

lemma default_scope:
  "DataExtractionService_extractTranslationData window pageContext JUndefined
     = DataExtractionService_extractTranslationData window pageContext window"
  by (simp add: DataExtractionService_extractTranslationData_def)

lemma off_target:
  "DataExtractionService_extractTranslationData window None globalScope
     = Inr (Failure ''Invalid page context provided'')"
  "\<not> isKKdayDomain_flag pc \<Longrightarrow>
   DataExtractionService_extractTranslationData window (Some pc) globalScope
     = Inr (Failure ''Cannot extract data from non-KKday domain'')"
  by (simp_all add: DataExtractionService_extractTranslationData_def)


text \<open>
  C8. For every page context and every global scope, also one where the expected
  global variables are missing, \<open>null\<close> or malformed, \<open>extractTranslationData\<close> does not
  throw: it returns a result, which is either a success with at least one entry or a
  failure with a non-empty reason. An omitted scope is the window. On the target domain
  every absence is a failure with its own reason: a \<open>null\<close> scope; a missing or falsy
  \<open>__NUXT__\<close>, \<open>__NUXT__.state\<close> or \<open>__NUXT__.state['$si18n_<language>']\<close> on a product
  page; a missing or falsy \<open>__INIT_STATE__\<close> or \<open>__INIT_STATE__.lang\<close> on another page; and
  a dictionary that yields no entry (which is the case when it has no non-blank string
  under a non-empty name). The result is a success, with the converted entries, the path
  of the source, the strategy and the count, exactly when the dictionary is found and
  yields an entry. These cases are all there are: a property read throws on
  \<open>undefined\<close> and \<open>null\<close> only.
\<close>

theorem extraction_never_throws:
  "(\<exists>r. DataExtractionService_extractTranslationData window pageContext globalScope = Inr r
        \<and> (case r of Failure reason \<Rightarrow> reason \<noteq> [] | Success d src strat n \<Rightarrow> d \<noteq> [] \<and> n = length d))
   \<and> (isKKdayDomain_flag pc \<and> g \<noteq> JUndefined
        \<and> (if isProductPage_flag pc then (\<forall>v. getProp g ''__NUXT__'' = Inr v \<longrightarrow> \<not> truthy v)
            else (\<forall>v. getProp g ''__INIT_STATE__'' = Inr v \<longrightarrow> \<not> truthy v))
      \<longrightarrow> (\<exists>reason. DataExtractionService_extractTranslationData window (Some pc) g
                      = Inr (Failure (''Data extraction failed: '' @ reason))))
   \<and> DataExtractionService_extractTranslationData window pageContext JUndefined
       = DataExtractionService_extractTranslationData window pageContext window
   \<and> DataExtractionService_extractTranslationData window None globalScope
       = Inr (Failure ''Invalid page context provided'')
   \<and> (\<not> isKKdayDomain_flag pc \<longrightarrow>
        DataExtractionService_extractTranslationData window (Some pc) globalScope
          = Inr (Failure ''Cannot extract data from non-KKday domain''))
   \<and> (isKKdayDomain_flag pc \<longrightarrow>
        (\<exists>reason. DataExtractionService_extractTranslationData window (Some pc) JNull
                    = Inr (Failure (''Data extraction failed: '' @ reason))))
   \<and> (isKKdayDomain_flag pc \<and> g \<noteq> JUndefined \<and> isProductPage_flag pc
        \<and> getProp g ''__NUXT__'' = Inr nuxt \<longrightarrow>
         (\<not> truthy nuxt \<longrightarrow>
            DataExtractionService_extractTranslationData window (Some pc) g
              = Inr (Failure ''Data extraction failed: __NUXT__ global variable not found''))
       \<and> (truthy nuxt \<and> getProp nuxt ''state'' = Inr st \<longrightarrow>
            (\<not> truthy st \<longrightarrow>
               DataExtractionService_extractTranslationData window (Some pc) g
                 = Inr (Failure ''Data extraction failed: __NUXT__.state not found''))
          \<and> (truthy st
               \<and> getProp st (''$si18n_'' @ (if language pc \<noteq> [] then language pc else ''zh-tw'')) = Inr raw \<longrightarrow>
               (\<not> truthy raw \<longrightarrow>
                  DataExtractionService_extractTranslationData window (Some pc) g
                    = Inr (Failure (''Data extraction failed: Translation data not found at __NUXT__.state[''
                          @ [CHR 0x27] @ ''$si18n_'' @ (if language pc \<noteq> [] then language pc else ''zh-tw'')
                          @ [CHR 0x27] @ '']'')))
             \<and> (truthy raw \<and> convertToTranslationEntries raw = [] \<longrightarrow>
                  DataExtractionService_extractTranslationData window (Some pc) g
                    = Inr (Failure ''No valid translation entries found''))
             \<and> (truthy raw \<and> convertToTranslationEntries raw \<noteq> [] \<longrightarrow>
                  DataExtractionService_extractTranslationData window (Some pc) g
                    = Inr (Success (convertToTranslationEntries raw)
                            (''__NUXT__.state['' @ [CHR 0x27] @ ''$si18n_''
                               @ (if language pc \<noteq> [] then language pc else ''zh-tw'') @ [CHR 0x27] @ '']'')
                            ''nuxt'' (length (convertToTranslationEntries raw)))))))
   \<and> (isKKdayDomain_flag pc \<and> g \<noteq> JUndefined \<and> \<not> isProductPage_flag pc
        \<and> getProp g ''__INIT_STATE__'' = Inr initState \<longrightarrow>
         (\<not> truthy initState \<longrightarrow>
            DataExtractionService_extractTranslationData window (Some pc) g
              = Inr (Failure ''Data extraction failed: __INIT_STATE__ global variable not found''))
       \<and> (truthy initState \<and> getProp initState ''lang'' = Inr langData \<longrightarrow>
            (\<not> truthy langData \<longrightarrow>
               DataExtractionService_extractTranslationData window (Some pc) g
                 = Inr (Failure ''Data extraction failed: Translation data not found at __INIT_STATE__.lang''))
          \<and> (truthy langData \<and> convertToTranslationEntries langData = [] \<longrightarrow>
               DataExtractionService_extractTranslationData window (Some pc) g
                 = Inr (Failure ''No valid translation entries found''))
          \<and> (truthy langData \<and> convertToTranslationEntries langData \<noteq> [] \<longrightarrow>
               DataExtractionService_extractTranslationData window (Some pc) g
                 = Inr (Success (convertToTranslationEntries langData) ''__INIT_STATE__.lang'' ''init_state''
                         (length (convertToTranslationEntries langData))))))
   \<and> ((\<forall>kv \<in> set (objectEntries dict). \<forall>s. snd kv = JStr s \<longrightarrow> trim s = [] \<or> fst kv = [])
        \<longrightarrow> convertToTranslationEntries dict = [])
   \<and> (v \<noteq> JUndefined \<and> v \<noteq> JNull \<longrightarrow> (\<exists>w. getProp v name = Inr w))"
  apply (intro conjI)
  subgoal by (rule extraction_total)
  subgoal by (rule impI, elim conjE, rule absent_failure)
  subgoal by (rule default_scope)
  subgoal by (rule off_target(1))
  subgoal using off_target(2) [of pc window globalScope] by blast
  subgoal using null_scope_failure [of pc window] by blast
  subgoal by (rule impI, elim conjE, rule nuxt_outcomes)
  subgoal by (rule impI, elim conjE, rule init_outcomes)
  subgoal using convert_no_strings [of dict] by blast
  subgoal using getProp_Inr [of v name] by blast
  done

theorem extraction_never_throws_witness:
  "DataExtractionService_extractTranslationData JUndefined
      (Some \<lparr>domain = ''www.kkday.com'', pathname = ''/en/product/1'', isKKdayDomain_flag = True,
             isProductPage_flag = True, language = ''en''\<rparr>)
      (JObj [(''__NUXT__'', JObj [(''layout'', JStr ''default'')])])
    = Inr (Failure ''Data extraction failed: __NUXT__.state not found'')
   \<and> DataExtractionService_extractTranslationData JUndefined
      (Some \<lparr>domain = ''www.kkday.com'', pathname = ''/en/product/1'', isKKdayDomain_flag = True,
             isProductPage_flag = True, language = ''en''\<rparr>)
      (JObj [(''__NUXT__'', JObj [(''state'', JObj [(''$si18n_en'', JObj [(''greeting'', JStr ''Hello'')])])])])
    = Inr (Success [\<lparr>key = ''greeting'', val = ''Hello''\<rparr>] (''__NUXT__.state['' @ [CHR 0x27] @ ''$si18n_en'' @ [CHR 0x27] @ '']'')
            ''nuxt'' 1)
   \<and> DataExtractionService_extractTranslationData JUndefined
      (Some \<lparr>domain = ''www.kkday.com'', pathname = ''/en/category/tours'', isKKdayDomain_flag = True,
             isProductPage_flag = False, language = ''en''\<rparr>)
      (JObj [(''__INIT_STATE__'', JObj [(''lang'', JObj [(''count'', JNum 5)])])])
    = Inr (Failure ''No valid translation entries found'')"
proof -
  let ?pc = "\<lparr>domain = ''www.kkday.com'', pathname = ''/en/product/1'', isKKdayDomain_flag = True,
             isProductPage_flag = True, language = ''en''\<rparr>"
  let ?pg = "\<lparr>domain = ''www.kkday.com'', pathname = ''/en/category/tours'', isKKdayDomain_flag = True,
             isProductPage_flag = False, language = ''en''\<rparr>"
  let ?g1 = "JObj [(''__NUXT__'', JObj [(''layout'', JStr ''default'')])]"
  let ?d = "JObj [(''greeting'', JStr ''Hello'')]"
  let ?s2 = "JObj [(''$si18n_en'', ?d)]"
  let ?n2 = "JObj [(''state'', ?s2)]"
  let ?g2 = "JObj [(''__NUXT__'', ?n2)]"
  let ?l3 = "JObj [(''count'', JNum 5)]"
  let ?i3 = "JObj [(''lang'', ?l3)]"
  let ?g3 = "JObj [(''__INIT_STATE__'', ?i3)]"
  have h1: "isKKdayDomain_flag ?pc \<and> ?g1 \<noteq> JUndefined \<and> isProductPage_flag ?pc
      \<and> getProp ?g1 ''__NUXT__'' = Inr (JObj [(''layout'', JStr ''default'')])
      \<and> truthy (JObj [(''layout'', JStr ''default'')])
      \<and> getProp (JObj [(''layout'', JStr ''default'')]) ''state'' = Inr JUndefined
      \<and> \<not> truthy JUndefined"
    by simp
  have h2: "isKKdayDomain_flag ?pc \<and> ?g2 \<noteq> JUndefined \<and> isProductPage_flag ?pc
      \<and> getProp ?g2 ''__NUXT__'' = Inr ?n2 \<and> truthy ?n2
      \<and> getProp ?n2 ''state'' = Inr ?s2 \<and> truthy ?s2
      \<and> getProp ?s2 (''$si18n_'' @ (if language ?pc \<noteq> [] then language ?pc else ''zh-tw'')) = Inr ?d
      \<and> truthy ?d"
    by simp
  have c2: "convertToTranslationEntries ?d = [\<lparr>key = ''greeting'', val = ''Hello''\<rparr>]"
    by code_simp
  have h3: "isKKdayDomain_flag ?pg \<and> ?g3 \<noteq> JUndefined \<and> \<not> isProductPage_flag ?pg
      \<and> getProp ?g3 ''__INIT_STATE__'' = Inr ?i3 \<and> truthy ?i3
      \<and> getProp ?i3 ''lang'' = Inr ?l3 \<and> truthy ?l3"
    by simp
  have c3: "\<forall>kv \<in> set (objectEntries ?l3). \<forall>s. snd kv = JStr s \<longrightarrow> trim s = [] \<or> fst kv = []"
    by simp
  note t1 = extraction_never_throws [where window = JUndefined and pc = ?pc and g = ?g1
      and nuxt = "JObj [(''layout'', JStr ''default'')]" and st = JUndefined,
      THEN conjunct2, THEN conjunct2, THEN conjunct2, THEN conjunct2, THEN conjunct2, THEN conjunct2, THEN conjunct1]
  note t2 = extraction_never_throws [where window = JUndefined and pc = ?pc and g = ?g2
      and nuxt = ?n2 and st = ?s2 and raw = ?d,
      THEN conjunct2, THEN conjunct2, THEN conjunct2, THEN conjunct2, THEN conjunct2, THEN conjunct2, THEN conjunct1]
  note t3 = extraction_never_throws [where window = JUndefined and pc = ?pg and g = ?g3
      and initState = ?i3 and langData = ?l3,
      THEN conjunct2, THEN conjunct2, THEN conjunct2, THEN conjunct2, THEN conjunct2, THEN conjunct2, THEN conjunct2, THEN conjunct1]
  note t3c = extraction_never_throws [where dict = ?l3,
      THEN conjunct2, THEN conjunct2, THEN conjunct2, THEN conjunct2, THEN conjunct2, THEN conjunct2, THEN conjunct2, THEN conjunct2, THEN conjunct1]
  from h1 t1 have r1: "DataExtractionService_extractTranslationData JUndefined (Some ?pc) ?g1
      = Inr (Failure ''Data extraction failed: __NUXT__.state not found'')"
    by blast
  from h2 c2 t2 have r2: "DataExtractionService_extractTranslationData JUndefined (Some ?pc) ?g2
      = Inr (Success (convertToTranslationEntries ?d)
           (''__NUXT__.state['' @ [CHR 0x27] @ ''$si18n_'' @ (if language ?pc \<noteq> [] then language ?pc else ''zh-tw'')
              @ [CHR 0x27] @ '']'') ''nuxt'' (length (convertToTranslationEntries ?d)))"
    by (metis list.distinct(1))
  from c3 t3c have e3: "convertToTranslationEntries ?l3 = []"
    by blast
  with h3 t3 have r3: "DataExtractionService_extractTranslationData JUndefined (Some ?pg) ?g3
      = Inr (Failure ''No valid translation entries found'')"
    by blast
  from r1 r2 r3 c2 show ?thesis
    by simp
qed

section \<open>The cache under the two extraction passes\<close>

text \<open>The content script's own extraction never replaces a populated cache; the
  message listener replaces any cache by the flattened data of a message from the window
  whose data is truthy.\<close>

lemma onPageMessage_replaces:
  "fromWindow event \<Longrightarrow> msgType event = ''I18N_KEY_FINDER_DATA'' \<Longrightarrow> truthy (msgData event) \<Longrightarrow>
   onPageMessage event c = Some (flattenTranslationData (msgData event) [])"
  by (simp add: onPageMessage_def)

lemma onPageMessage_ignores_falsy:
  "\<not> truthy (msgData event) \<Longrightarrow> onPageMessage event c = c"
  by (simp add: onPageMessage_def)

lemma content_extract_keeps:
  "\<not> cacheEmpty c \<Longrightarrow> ContentScript_extractTranslationData found c = c"
  by (auto simp: ContentScript_extractTranslationData_def split: sum.splits)

text \<open>
  C9. The message listener replaces the cache whenever the data of the message is
  truthy, also when flattening it gives no record. When the immediate pass posts
  \<open>{greeting: "Hello"}\<close> and the delayed pass posts \<open>{count: 5}\<close>, the populated cache is
  replaced by the empty list; in the other order the cache ends populated. The outcome
  depends on the order, and a populated cache is lost.
\<close>

theorem page_message_empties_cache:
  "onPageMessage \<lparr>fromWindow = True, msgType = ''I18N_KEY_FINDER_DATA'', msgData = JObj [(''count'', JNum 5)]\<rparr>
     (onPageMessage \<lparr>fromWindow = True, msgType = ''I18N_KEY_FINDER_DATA'',
                     msgData = JObj [(''greeting'', JStr ''Hello'')]\<rparr> None)
   = Some []
   \<and> onPageMessage \<lparr>fromWindow = True, msgType = ''I18N_KEY_FINDER_DATA'',
                     msgData = JObj [(''greeting'', JStr ''Hello'')]\<rparr>
       (onPageMessage \<lparr>fromWindow = True, msgType = ''I18N_KEY_FINDER_DATA'', msgData = JObj [(''count'', JNum 5)]\<rparr> None)
     = Some [\<lparr>key = ''greeting'', val = ''Hello''\<rparr>]"
  by code_simp

section \<open>Properties of SearchResult.fromFuseResult\<close>

lemma fromFuseResult_object:
  assumes "getProp (JObj kvs) ''item'' = Inr it" and "truthy it" and "fromObject it = Inr e"
    and "getProp (JObj kvs) ''score'' = Inr s"
    and "getProp (JObj kvs) ''refIndex'' = Inr ri"
  shows "fromFuseResult (JObj kvs)
           = newSearchResult e (case s of JNum x \<Rightarrow> x | _ \<Rightarrow> 0) (case ri of JNum x \<Rightarrow> x | _ \<Rightarrow> 0)"
proof -
  have obj: "\<not> (\<not> truthy (JObj kvs) \<or> typeof (JObj kvs) \<noteq> ''object'')"
    by simp
  show ?thesis
    unfolding fromFuseResult_def
    by (simp only: obj assms if_False if_True sum.case not_True_eq_False not_not)
qed

lemma fromFuseResult_success:
  assumes "getProp (JObj kvs) ''item'' = Inr it" and "fromObject it = Inr e"
    and "getProp (JObj kvs) ''score'' = Inr s" and "typeof s \<noteq> ''number''"
    and "getProp (JObj kvs) ''refIndex'' = Inr ri"
    and "typeof ri \<noteq> ''number'' \<or> (\<exists>n. ri = JNum (of_nat n))"
  shows "\<exists>r. fromFuseResult (JObj kvs) = Inr r \<and> item r = e \<and> score r = 0
             \<and> getConfidenceLevel r = ''perfect''
             \<and> refIndex r = (case ri of JNum x \<Rightarrow> x | _ \<Rightarrow> 0)"
proof -
  from assms(2) have t: "truthy it"
    by (auto simp: fromObject_def split: if_splits)
  from assms(4) have s0: "(case s of JNum x \<Rightarrow> x | _ \<Rightarrow> 0) = 0"
    by (cases s) auto
  define x where "x = (case ri of JNum x \<Rightarrow> x | _ \<Rightarrow> 0)"
  from assms(6) have xn: "x = 0 \<or> (\<exists>n. x = of_nat n)"
    by (cases ri) (auto simp: x_def)
  then have x0: "0 \<le> x"
    by auto
  from xn have x1: "of_int \<lfloor>x\<rfloor> = x"
  proof
    assume "x = 0"
    then show ?thesis by simp
  next
    assume "\<exists>n. x = of_nat n"
    then obtain n where "x = of_nat n" ..
    then show ?thesis by (simp only: floor_of_nat of_int_of_nat_eq)
  qed
  have "fromFuseResult (JObj kvs) = newSearchResult e 0 x"
    using fromFuseResult_object [OF assms(1) t assms(2) assms(3) assms(5)] s0 by (simp only: x_def)
  also have "\<dots> = Inr \<lparr>item = e, score = 0, refIndex = x\<rparr>"
    using x0 x1 by (simp add: newSearchResult_def)
  finally have "fromFuseResult (JObj kvs) = Inr \<lparr>item = e, score = 0, refIndex = x\<rparr>" .
  moreover have "getConfidenceLevel \<lparr>item = e, score = 0, refIndex = x\<rparr> = ''perfect''"
    by (simp add: getConfidenceLevel_def)
  ultimately show ?thesis
    by (simp add: x_def)
qed

lemma newSearchResult_throws:
  "isl (newSearchResult e sc ri) \<longleftrightarrow> sc < 0 \<or> 1 < sc \<or> ri < 0 \<or> of_int \<lfloor>ri\<rfloor> \<noteq> ri"
  by (simp add: newSearchResult_def)

lemma fromFuseResult_throws_object:
  assumes "getProp (JObj kvs) ''item'' = Inr it"
    and "getProp (JObj kvs) ''score'' = Inr s"
    and "getProp (JObj kvs) ''refIndex'' = Inr ri"
  shows "isl (fromFuseResult (JObj kvs)) \<longleftrightarrow>
           \<not> truthy it \<or> isl (fromObject it)
           \<or> (\<exists>x. s = JNum x \<and> (x < 0 \<or> 1 < x))
           \<or> (\<exists>y. ri = JNum y \<and> (y < 0 \<or> of_int \<lfloor>y\<rfloor> \<noteq> y))"
proof (cases "truthy it")
  case False
  have obj: "\<not> (\<not> truthy (JObj kvs) \<or> typeof (JObj kvs) \<noteq> ''object'')"
    by simp
  have "fromFuseResult (JObj kvs) = Inl (Error ''Fuse result must contain an item property'')"
    unfolding fromFuseResult_def
    by (simp only: obj assms False if_False if_True sum.case not_False_eq_True)
  with False show ?thesis by simp
next
  case True
  show ?thesis
  proof (cases "fromObject it")
    case (Inl err)
    have obj: "\<not> (\<not> truthy (JObj kvs) \<or> typeof (JObj kvs) \<noteq> ''object'')"
      by simp
    have "fromFuseResult (JObj kvs) = Inl err"
      unfolding fromFuseResult_def
      by (simp only: obj assms True Inl if_False if_True sum.case not_True_eq_False)
    with Inl show ?thesis by simp
  next
    case (Inr e)
    have sc: "(case s of JNum x \<Rightarrow> x | _ \<Rightarrow> 0) < 0 \<or> 1 < (case s of JNum x \<Rightarrow> x | _ \<Rightarrow> 0)
          \<longleftrightarrow> (\<exists>x. s = JNum x \<and> (x < 0 \<or> 1 < x))"
      by (cases s) auto
    have rc: "(case ri of JNum x \<Rightarrow> x | _ \<Rightarrow> 0) < 0
               \<or> of_int \<lfloor>case ri of JNum x \<Rightarrow> x | _ \<Rightarrow> 0\<rfloor> \<noteq> (case ri of JNum x \<Rightarrow> x | _ \<Rightarrow> (0::real))
          \<longleftrightarrow> (\<exists>y. ri = JNum y \<and> (y < 0 \<or> of_int \<lfloor>y\<rfloor> \<noteq> y))"
      by (cases ri) auto
    from fromFuseResult_object [OF assms(1) True Inr assms(2) assms(3)]
    have "isl (fromFuseResult (JObj kvs)) \<longleftrightarrow>
            ((case s of JNum x \<Rightarrow> x | _ \<Rightarrow> 0) < 0 \<or> 1 < (case s of JNum x \<Rightarrow> x | _ \<Rightarrow> 0))
            \<or> ((case ri of JNum x \<Rightarrow> x | _ \<Rightarrow> 0) < 0
               \<or> of_int \<lfloor>case ri of JNum x \<Rightarrow> x | _ \<Rightarrow> 0\<rfloor> \<noteq> (case ri of JNum x \<Rightarrow> x | _ \<Rightarrow> (0::real)))"
      by (simp only: newSearchResult_throws disj_assoc)
    with True Inr sc rc show ?thesis
      by simp
  qed
qed

lemma fromFuseResult_throws_other:
  "\<forall>kvs. fuseResult \<noteq> JObj kvs \<Longrightarrow> isl (fromFuseResult fuseResult)"
  by (cases fuseResult) (simp_all add: fromFuseResult_def)

text \<open>
  C10 (amended). For an input object whose \<open>item\<close> is a valid translation entry object
  (an object with a non-empty string \<open>key\<close> and a string \<open>val\<close>) and whose \<open>refIndex\<close> is
  missing, not a number or a non-negative integer, a \<open>score\<close> that is missing or not a
  number makes \<open>fromFuseResult\<close> return a SearchResult with score 0, which
  \<open>getConfidenceLevel\<close> classifies as \<open>perfect\<close>, and a missing or non-numeric \<open>refIndex\<close>
  becomes 0. It throws for every argument that is not an object, and for an object
  exactly when the \<open>item\<close> is missing or falsy, the \<open>item\<close> is not a valid entry, a numeric
  \<open>score\<close> lies outside [0, 1], or a numeric \<open>refIndex\<close> is negative or not an integer.
\<close>

theorem fromFuseResult_defaults:
  "(getProp (JObj kvs) ''item'' = Inr it \<and> fromObject it = Inr e
      \<and> getProp (JObj kvs) ''score'' = Inr s \<and> typeof s \<noteq> ''number''
      \<and> getProp (JObj kvs) ''refIndex'' = Inr ri
      \<and> (typeof ri \<noteq> ''number'' \<or> (\<exists>n. ri = JNum (of_nat n)))
    \<longrightarrow> (\<exists>r. fromFuseResult (JObj kvs) = Inr r \<and> item r = e \<and> score r = 0
             \<and> getConfidenceLevel r = ''perfect''
             \<and> refIndex r = (case ri of JNum x \<Rightarrow> x | _ \<Rightarrow> 0)))
   \<and> (getProp (JObj kvs) ''item'' = Inr it \<and> getProp (JObj kvs) ''score'' = Inr s
        \<and> getProp (JObj kvs) ''refIndex'' = Inr ri
      \<longrightarrow> (isl (fromFuseResult (JObj kvs)) \<longleftrightarrow>
             \<not> truthy it \<or> isl (fromObject it)
             \<or> (\<exists>x. s = JNum x \<and> (x < 0 \<or> 1 < x))
             \<or> (\<exists>y. ri = JNum y \<and> (y < 0 \<or> of_int \<lfloor>y\<rfloor> \<noteq> y))))
   \<and> ((\<forall>kvs'. fuseResult \<noteq> JObj kvs') \<longrightarrow> isl (fromFuseResult fuseResult))"
  using fromFuseResult_success [of kvs it e s ri] fromFuseResult_throws_object [of kvs it s ri]
    fromFuseResult_throws_other [of fuseResult]
  by blast

theorem fromFuseResult_defaults_witness:
  "\<exists>r. fromFuseResult (JObj [(''item'', JObj [(''key'', JStr ''k''), (''val'', JStr ''v'')]),
                             (''score'', JStr ''high'')]) = Inr r
       \<and> item r = \<lparr>key = ''k'', val = ''v''\<rparr> \<and> score r = 0
       \<and> getConfidenceLevel r = ''perfect'' \<and> refIndex r = 0"
proof -
  have h: "getProp (JObj [(''item'', JObj [(''key'', JStr ''k''), (''val'', JStr ''v'')]), (''score'', JStr ''high'')]) ''item''
             = Inr (JObj [(''key'', JStr ''k''), (''val'', JStr ''v'')])
      \<and> fromObject (JObj [(''key'', JStr ''k''), (''val'', JStr ''v'')]) = Inr \<lparr>key = ''k'', val = ''v''\<rparr>
      \<and> getProp (JObj [(''item'', JObj [(''key'', JStr ''k''), (''val'', JStr ''v'')]), (''score'', JStr ''high'')]) ''score''
             = Inr (JStr ''high'')
      \<and> typeof (JStr ''high'') \<noteq> ''number''
      \<and> getProp (JObj [(''item'', JObj [(''key'', JStr ''k''), (''val'', JStr ''v'')]), (''score'', JStr ''high'')]) ''refIndex''
             = Inr JUndefined
      \<and> (typeof JUndefined \<noteq> ''number'' \<or> (\<exists>n. JUndefined = JNum (of_nat n)))"
    by (simp add: fromObject_def newTranslationEntry_def)
  from h fromFuseResult_defaults [where kvs = "[(''item'', JObj [(''key'', JStr ''k''), (''val'', JStr ''v'')]), (''score'', JStr ''high'')]"
      and it = "JObj [(''key'', JStr ''k''), (''val'', JStr ''v'')]" and e = "\<lparr>key = ''k'', val = ''v''\<rparr>"
      and s = "JStr ''high''" and ri = JUndefined]
  show ?thesis by (simp del: ex_simps)
qed

text \<open>The claim as stated has it throw only for a non-object or a missing \<open>item\<close>, and
  return the score 0 for every object with an \<open>item\<close> and no numeric score: an \<open>item\<close>
  without \<open>val\<close> throws, and so does a score of 2.\<close>

theorem fromFuseResult_throws_counterexample:
  "fromFuseResult (JObj [(''item'', JObj [(''key'', JStr ''k'')])])
     = Inl (Error ''TranslationEntry value must be a string'')
   \<and> fromFuseResult (JObj [(''item'', JObj [(''key'', JStr ''k''), (''val'', JStr ''v'')]), (''score'', JNum 2)])
     = Inl (Error ''SearchResult score must be between 0 and 1'')"
  by code_simp

end
